theory Spec2Isabelle
  imports Main "HOL-Library.Word"
begin

section \<open>Python values used by the client\<close>

text \<open>
  The client \<^verbatim>\<open>nexosA2/nexos.py\<close> talks to a hydrophone with ASCII commands and
  receives an audio stream over UDP. Python integers are unbounded (\<open>int\<close>), strings are
  \<open>string\<close> (the device speaks ASCII, so \<^verbatim>\<open>decode()\<close> is the identity on them),
  a byte of a datagram is an \<open>8 word\<close>.
\<close>

type_synonym byte = "8 word"

text \<open>The argument of \<^verbatim>\<open>set\<close> and the values of the configuration dictionary: a
  Python \<^verbatim>\<open>str\<close> or \<^verbatim>\<open>int\<close>.\<close>

datatype pyval = PInt int | PStr string

text \<open>The header fields of the stream start as the integer \<open>-1\<close> and hold a slice of
  the datagram after the first packet.\<close>

datatype rtpfield = IntV int | BytesV "byte list"

definition CR :: char where "CR = CHR 0x0D"
definition LF :: char where "LF = CHR 0x0A"
definition DQ :: char where "DQ = CHR 0x22"

definition crlf :: string where
  "crlf = [CR, LF]"

text \<open>\<^verbatim>\<open>str(n)\<close> for an integer: its decimal digits, with a minus sign when negative.\<close>

function digits :: "int \<Rightarrow> string" where
  "digits n = (if n < 10 then [''0123456789'' ! nat n]
               else digits (n div 10) @ [''0123456789'' ! nat (n mod 10)])"
  by pat_completeness auto
termination
  by (relation "measure nat") auto

declare digits.simps [simp del]

definition str_int :: "int \<Rightarrow> string" where
  "str_int i = (if i < 0 then CHR ''-'' # digits (- i) else digits i)"

fun str :: "pyval \<Rightarrow> string" where
  "str (PStr s) = s"
| "str (PInt i) = str_int i"

text \<open>\<^verbatim>\<open>s.replace("\r\n", "")\<close>: every occurrence, left to right, without overlap.\<close>

fun replace_crlf :: "string \<Rightarrow> string" where
  "replace_crlf [] = []"
| "replace_crlf [c] = [c]"
| "replace_crlf (c # d # cs) =
     (if c = CR \<and> d = LF then replace_crlf cs else c # replace_crlf (d # cs))"

text \<open>\<^verbatim>\<open>s.replace("\"", "")\<close>.\<close>

definition replace_quote :: "string \<Rightarrow> string" where
  "replace_quote s = filter (\<lambda>c. c \<noteq> DQ) s"

text \<open>\<^verbatim>\<open>s[-2:] == "\r\n"\<close>, which for these strings is also \<^verbatim>\<open>s.endswith("\r\n")\<close>:
  a string shorter than two characters is its own slice and differs from the terminator.\<close>

definition ends_crlf :: "string \<Rightarrow> bool" where
  "ends_crlf s = (drop (length s - 2) s = crlf)"

text \<open>
  \<^verbatim>\<open>int(s)\<close> on a string: surrounding ASCII whitespace is stripped, one sign is allowed,
  then decimal digits, where single underscores may stand between two digits. Anything
  else raises \<^verbatim>\<open>ValueError\<close> (\<open>None\<close> here). Digits and whitespace beyond ASCII are
  outside this model.
\<close>

definition is_space :: "char \<Rightarrow> bool" where
  "is_space c = (c \<in> set [CHR 0x20, CHR 0x09, CHR 0x0A, CHR 0x0B, CHR 0x0C, CHR 0x0D])"

definition is_digit :: "char \<Rightarrow> bool" where
  "is_digit c = (c \<in> set ''0123456789'')"

definition digit_val :: "char \<Rightarrow> int" where
  "digit_val c = int (of_char c) - 48"

definition strip :: "string \<Rightarrow> string" where
  "strip s = rev (dropWhile is_space (rev (dropWhile is_space s)))"

fun int_digits :: "int \<Rightarrow> string \<Rightarrow> int option" where
  "int_digits acc [] = Some acc"
| "int_digits acc [c] = (if is_digit c then Some (acc * 10 + digit_val c) else None)"
| "int_digits acc (c # d # ds) =
     (if is_digit c then int_digits (acc * 10 + digit_val c) (d # ds)
      else if c = CHR ''_'' \<and> is_digit d then int_digits (acc * 10 + digit_val d) ds
      else None)"

definition int_unsigned :: "string \<Rightarrow> int option" where
  "int_unsigned s =
     (case s of [] \<Rightarrow> None
      | c # cs \<Rightarrow> if is_digit c then int_digits (digit_val c) cs else None)"

definition py_int :: "string \<Rightarrow> int option" where
  "py_int s =
     (case strip s of [] \<Rightarrow> None
      | c # cs \<Rightarrow>
          if c = CHR ''-'' then map_option uminus (int_unsigned cs)
          else if c = CHR ''+'' then int_unsigned cs
          else int_unsigned (c # cs))"

text \<open>\<^verbatim>\<open>int.from_bytes(bs, byteorder='big')\<close>.\<close>

definition int_from_bytes_big :: "byte list \<Rightarrow> int" where
  "int_from_bytes_big bs = foldl (\<lambda>acc b. acc * 256 + uint b) 0 bs"

section \<open>Exceptions, the environment and the client object\<close>

text \<open>The exceptions the client raises itself or lets through from the libraries it
  calls. \<^verbatim>\<open>SocketTimeout\<close> is \<^verbatim>\<open>socket.timeout\<close>, \<^verbatim>\<open>WaveError\<close> is
  \<^verbatim>\<open>wave.Error\<close>.\<close>

datatype error =
    ValueError string
  | AssertionError
  | AttributeError
  | SocketTimeout
  | OSError
  | SerialException
  | IndexError
  | ZeroDivisionError
  | OverflowError
  | WaveError

text \<open>A call returns a value, raises, or never returns (a blocking read with no
  timeout and nothing left to read).\<close>

datatype 'a outcome = Returns 'a | Raises error | Blocks

text \<open>What the client does to the outside, in order: bytes written to the serial line,
  datagrams sent from the command socket, sleeps (in milliseconds), the loss message of
  the capture loop, and the start of the tagging thread with its arguments. The other
  console messages are not recorded.\<close>

datatype event =
    SerialWrite string
  | UdpSendto string "string \<times> int"
  | Sleep nat
  | LostMsg int
  | TagThread string "(string \<times> pyval) list"

text \<open>A UDP socket object: created, bound to a local port, or closed.\<close>

datatype sock = Unbound | Bound int | Closed

text \<open>A \<^verbatim>\<open>wave\<close> writer: its frame rate, the chunks handed to
  \<^verbatim>\<open>writeframesraw\<close> in order, and whether \<^verbatim>\<open>close\<close> was called. The channel count
  and the sample width are the constants 1 and 2 of \<^verbatim>\<open>write_wav\<close>.\<close>

record wav =
  framerate :: int
  frames :: "byte list list"
  finalized :: bool

text \<open>
  The environment: the serial devices that can be opened, the bytes the device will put
  on the serial line, the datagrams that will arrive on the command socket and on the
  stream socket, the UDP ports bound on this host, the UTC clock (the \<open>k\<close>-th reading,
  already formatted as \<^verbatim>\<open>%Y%m%d_%H%M%Sz\<close>), the WAV files by name, and the trace of
  events so far.
\<close>

record world =
  serial_devices :: "string list"
  serial_rx :: string
  udp_rx :: "string list"
  stream_rx :: "byte list list"
  ports_in_use :: "int list"
  now_utc :: "nat \<Rightarrow> string"
  clock_reads :: nat
  wav_files :: "string \<rightharpoonup> wav"
  trace :: "event list"

text \<open>The attributes of a \<^verbatim>\<open>NeXOS\<close> object, and the environment it runs in.
  \<open>None\<close> in \<open>stream_socket\<close> and \<open>nexos_address\<close> is an attribute that does not exist
  yet (\<^verbatim>\<open>__init__\<close> does not create them). The attribute \<^verbatim>\<open>address\<close> is never
  read and is left out.\<close>

record NeXOS =
  interface :: "string option"
  socket :: "sock option"
  serial :: "string option"
  nexos_address :: "(string \<times> int) option"
  streaming_port :: int
  newSeqNum :: int
  oldSeqNum :: int
  rtpVersion :: int
  rtpPayloadType :: int
  rtpSeqNum :: rtpfield
  rtpTimestampNs :: rtpfield
  rtpTimestampS :: rtpfield
  packetSize :: int
  samplesPerPacket :: int
  open_stream_port :: bool
  stream_socket :: "sock option"
  config_info :: "(string \<times> pyval) list"
  ch :: int
  srate :: int
  gain_status :: pyval
  eq_status :: pyval
  world :: world

text \<open>\<^verbatim>\<open>NeXOS.__init__\<close>.\<close>

definition NeXOS_init :: "world \<Rightarrow> NeXOS" where
  "NeXOS_init w =
     \<lparr> interface = None, socket = None, serial = None, nexos_address = None,
       streaming_port = 4002, newSeqNum = - 1, oldSeqNum = - 1,
       rtpVersion = - 1, rtpPayloadType = - 1, rtpSeqNum = IntV (- 1),
       rtpTimestampNs = IntV (- 1), rtpTimestampS = IntV (- 1),
       packetSize = 1036, samplesPerPacket = 512, open_stream_port = False,
       stream_socket = None, config_info = [], ch = - 1, srate = - 1,
       gain_status = PInt (- 1), eq_status = PInt (- 1), world = w \<rparr>"

subsection \<open>Sequencing\<close>

type_synonym 'a prog = "NeXOS \<Rightarrow> 'a outcome \<times> NeXOS"

definition ret :: "'a \<Rightarrow> 'a prog" where
  "ret x s = (Returns x, s)"

definition raise :: "error \<Rightarrow> 'a prog" where
  "raise e s = (Raises e, s)"

text \<open>Statement after statement: the second runs only when the first returned; an
  exception or a blocked call ends the whole, in the state reached.\<close>

definition andthen :: "'a prog \<Rightarrow> ('a \<Rightarrow> 'b prog) \<Rightarrow> 'b prog" where
  "andthen m f s =
     (case m s of
        (Returns x, s1) \<Rightarrow> f x s1
      | (Raises e, s1) \<Rightarrow> (Raises e, s1)
      | (Blocks, s1) \<Rightarrow> (Blocks, s1))"

definition log_event :: "event \<Rightarrow> unit prog" where
  "log_event e s = (Returns (), s\<lparr>world := (world s)\<lparr>trace := trace (world s) @ [e]\<rparr>\<rparr>)"

text \<open>\<^verbatim>\<open>time.sleep\<close>, in milliseconds.\<close>

definition sleep :: "nat \<Rightarrow> unit prog" where
  "sleep ms = log_event (Sleep ms)"

text \<open>The strings transmitted to the device so far, over either medium.\<close>

fun tx_of :: "event \<Rightarrow> string list" where
  "tx_of (SerialWrite c) = [c]"
| "tx_of (UdpSendto c a) = [c]"
| "tx_of (Sleep ms) = []"
| "tx_of (LostMsg g) = []"
| "tx_of (TagThread f c) = []"

definition sent :: "NeXOS \<Rightarrow> string list" where
  "sent s = concat (map tx_of (trace (world s)))"

text \<open>The second state differs from the first in the environment only: no attribute of
  the client object changed.\<close>

definition only_world :: "NeXOS \<Rightarrow> NeXOS \<Rightarrow> bool" where
  "only_world s s' = (s' = s\<lparr>world := world s'\<rparr>)"

section \<open>Transport\<close>

subsection \<open>Serial port\<close>

text \<open>\<^verbatim>\<open>init_serial\<close>. Opening the port raises pyserial's exception when the device
  cannot be opened. \<^verbatim>\<open>not self.interface\<close> holds for \<^verbatim>\<open>None\<close> and for the empty
  string.\<close>

definition init_serial :: "string \<Rightarrow> unit prog" where
  "init_serial device s =
     (if serial s \<noteq> None then (Raises (ValueError ''Serial already configured!''), s)
      else if device \<notin> set (serial_devices (world s)) then (Raises SerialException, s)
      else
        let s1 = s\<lparr>serial := Some device\<rparr> in
        if interface s1 = None \<or> interface s1 = Some []
        then (Returns (), s1\<lparr>interface := Some ''serial''\<rparr>)
        else (Returns (), s1))"

text \<open>
  The loop of \<^verbatim>\<open>recv_serial\<close>. \<^verbatim>\<open>serial.read(1)\<close> has a timeout of one second and
  returns the empty string when nothing arrived; the loop then goes round again, so
  with nothing more to come it never ends: the result is \<open>None\<close>.
\<close>

partial_function (option) recv_serial_loop ::
  "nat \<Rightarrow> string \<Rightarrow> bool \<Rightarrow> string \<Rightarrow> (string \<times> string) option" where
  "recv_serial_loop n response ended inp =
     (if \<not> ended \<and> length response < n then
        (case inp of
           [] \<Rightarrow> recv_serial_loop n response (ended \<or> ends_crlf response) []
         | c # cs \<Rightarrow>
             recv_serial_loop n (response @ [c]) (ended \<or> ends_crlf (response @ [c])) cs)
      else Some (response, inp))"

declare recv_serial_loop.simps [code]

definition recv_serial :: "nat \<Rightarrow> string prog" where
  "recv_serial n =
     andthen (sleep 100) (\<lambda>_ s.
       case serial s of
         None \<Rightarrow> if n = 0 then (Returns [], s) else (Raises AttributeError, s)
       | Some dev \<Rightarrow>
           (case recv_serial_loop n [] False (serial_rx (world s)) of
              None \<Rightarrow> (Blocks, s\<lparr>world := (world s)\<lparr>serial_rx := []\<rparr>\<rparr>)
            | Some (response, rest) \<Rightarrow>
                (Returns (replace_crlf response),
                 s\<lparr>world := (world s)\<lparr>serial_rx := rest\<rparr>\<rparr>)))"

text \<open>\<^verbatim>\<open>send_serial\<close> returns the number of bytes written.\<close>

definition send_serial :: "string \<Rightarrow> int prog" where
  "send_serial cmd s =
     (case serial s of
        None \<Rightarrow> (Raises AttributeError, s)
      | Some dev \<Rightarrow>
          andthen (log_event (SerialWrite cmd))
            (\<lambda>_. andthen (sleep 200) (\<lambda>_. ret (int (length cmd)))) s)"

subsection \<open>UDP\<close>

text \<open>
  The loop of \<^verbatim>\<open>recv_udp\<close>: \<^verbatim>\<open>socket.recv(1024)\<close> returns the next datagram, cut to
  1024 bytes, and raises \<^verbatim>\<open>socket.timeout\<close> after the two seconds set by
  \<^verbatim>\<open>init_udp\<close> when none arrives. The second component is what is left to arrive.
\<close>

fun recv_udp_loop :: "string \<Rightarrow> string list \<Rightarrow> string outcome \<times> string list" where
  "recv_udp_loop buffer [] = (Raises SocketTimeout, [])"
| "recv_udp_loop buffer (d # ds) =
     (if ends_crlf (buffer @ take 1024 d)
      then (Returns (replace_crlf (buffer @ take 1024 d)), ds)
      else recv_udp_loop (buffer @ take 1024 d) ds)"

definition recv_udp :: "string prog" where
  "recv_udp s =
     (case socket s of
        None \<Rightarrow> (Raises AttributeError, s)
      | Some sk \<Rightarrow>
          (case recv_udp_loop [] (udp_rx (world s)) of
             (r, rest) \<Rightarrow> (r, s\<lparr>world := (world s)\<lparr>udp_rx := rest\<rparr>\<rparr>)))"

definition send_udp :: "string \<Rightarrow> unit prog" where
  "send_udp cmd s =
     (case socket s of
        None \<Rightarrow> (Raises AttributeError, s)
      | Some sk \<Rightarrow>
          (case nexos_address s of
             None \<Rightarrow> (Raises AttributeError, s)
           | Some a \<Rightarrow> log_event (UdpSendto cmd a) s))"

text \<open>\<^verbatim>\<open>init_udp\<close>: a new socket replaces whatever \<^verbatim>\<open>self.socket\<close> held; the
  identity query is sent with the terminator \<^verbatim>\<open>\n\r\<close>, as the source has it. The
  address given is taken to be well formed.\<close>

definition init_udp :: "string \<Rightarrow> int \<Rightarrow> unit prog" where
  "init_udp ip_addr port s =
     (let s1 = s\<lparr>nexos_address := Some (ip_addr, port), socket := Some Unbound\<rparr> in
      andthen (log_event (UdpSendto (''*idn?'' @ [LF, CR]) (ip_addr, port)))
        (\<lambda>_. andthen recv_udp
          (\<lambda>data s2.
             if interface s2 = None \<or> interface s2 = Some []
             then (Returns (), s2\<lparr>interface := Some ''udp''\<rparr>)
             else (Returns (), s2))) s1)"

subsection \<open>Generic wrappers\<close>

definition send :: "string \<Rightarrow> unit prog" where
  "send string s =
     (if interface s \<noteq> Some ''udp'' \<and> interface s \<noteq> Some ''serial''
      then (Raises AssertionError, s)
      else if interface s = Some ''serial''
      then andthen (send_serial (string @ crlf)) (\<lambda>r. ret ()) s
      else send_udp (string @ crlf) s)"

text \<open>\<^verbatim>\<open>recv\<close> returns \<^verbatim>\<open>None\<close> when no interface is selected.\<close>

definition recv :: "nat \<Rightarrow> string option prog" where
  "recv n s =
     (if interface s = Some ''udp'' then andthen recv_udp (\<lambda>r. ret (Some r)) s
      else if interface s = Some ''serial'' then andthen (recv_serial n) (\<lambda>r. ret (Some r)) s
      else (Returns None, s))"

section \<open>Command protocol\<close>

definition query :: "string \<Rightarrow> string prog" where
  "query command =
     andthen (send command)
       (\<lambda>_. andthen (recv 256)
         (\<lambda>r. case r of
                 None \<Rightarrow> raise AttributeError
               | Some r \<Rightarrow> ret (replace_quote r)))"

text \<open>\<^verbatim>\<open>set\<close>: the command, the settle sleep of 0.2 s, the query, the comparison.\<close>

definition set_param :: "string \<Rightarrow> pyval \<Rightarrow> bool \<Rightarrow> unit prog" where
  "set_param param val enclose =
     andthen (send (if \<not> enclose then param @ '' '' @ str val
                    else param @ '' '' @ [DQ] @ str val @ [DQ]))
       (\<lambda>_. andthen (sleep 200)
         (\<lambda>_. andthen (query (param @ ''?''))
           (\<lambda>returned_value.
              if returned_value \<noteq> str val
              then raise (ValueError (''could not set param '' @ param @ ''!!''))
              else ret ())))"

definition set_interface :: "string \<Rightarrow> unit prog" where
  "set_interface iface s =
     (if iface \<noteq> ''udp'' \<and> iface \<noteq> ''serial'' then (Raises AssertionError, s)
      else (Returns (), s\<lparr>interface := Some iface\<rparr>))"

subsection \<open>High-level functions\<close>

definition set_recv_ip :: "string \<Rightarrow> unit prog" where
  "set_recv_ip ip_addr = set_param ''SYSTem:COMMunicate:LAN:RADDRess'' (PStr ip_addr) True"

definition set_recv_port :: "int \<Rightarrow> unit prog" where
  "set_recv_port port = set_param ''SYSTem:COMMunicate:LAN:RPORT'' (PInt port) False"

definition get_ip :: "string prog" where
  "get_ip = query ''SYSTem:COMMunicate:LAN:ADDRess?''"

definition set_srate :: "int \<Rightarrow> unit prog" where
  "set_srate sr =
     (if sr \<notin> set [100000, 50000, 200000] then raise AssertionError
      else set_param ''CONFigure:ACQuire:SRATe'' (PInt sr) False)"

definition get_srate :: "int prog" where
  "get_srate =
     andthen (query ''CONFigure:ACQuire:SRATe?'')
       (\<lambda>r. case py_int r of
               None \<Rightarrow> raise (ValueError ''invalid literal for int() with base 10'')
             | Some n \<Rightarrow> ret n)"

definition set_channel :: "int \<Rightarrow> unit prog" where
  "set_channel c =
     (if c \<notin> set [1, 2] then raise AssertionError
      else set_param (''INPut'' @ str_int c @ '':STATe'') (PInt 1) False)"

definition get_channel :: "int prog" where
  "get_channel =
     andthen (query ''INPut1:STATe?'')
       (\<lambda>r. case py_int r of
               None \<Rightarrow> raise (ValueError ''invalid literal for int() with base 10'')
             | Some n \<Rightarrow> if n = 1 then ret 1 else ret 2)"

definition set_gain :: "bool \<Rightarrow> unit prog" where
  "set_gain b =
     (if b then set_param ''INPut1:GAIN:STATe'' (PInt 1) False
      else set_param ''INPut1:GAIN:STATe'' (PInt 0) False)"

definition get_gain :: "string prog" where
  "get_gain = query ''INPut1:GAIN:STATe?''"

definition set_equalizer :: "bool \<Rightarrow> unit prog" where
  "set_equalizer b = set_param ''INPut1:EQUalizer:STATe'' (PInt (if b then 1 else 0)) False"

definition get_equalizer :: "string prog" where
  "get_equalizer = query ''INPut1:EQUalizer:STATe?''"

section \<open>Configuration refresh\<close>

text \<open>\<^verbatim>\<open>get_config\<close>: the attributes are assigned one after the other as the answers
  come in; the dictionary is built and stored last. The entries of a dictionary display
  are evaluated in order, so the identity is queried before the version.\<close>

definition get_config :: "(string \<times> pyval) list prog" where
  "get_config =
     andthen get_channel
       (\<lambda>c. andthen (\<lambda>s. (Returns (), s\<lparr>ch := c\<rparr>))
       (\<lambda>_. andthen
          (\<lambda>s. if ch s = 1
                then andthen get_equalizer
                       (\<lambda>e. andthen (\<lambda>s. (Returns (), s\<lparr>eq_status := PStr e\<rparr>))
                       (\<lambda>_. andthen get_gain
                       (\<lambda>g s. (Returns (), s\<lparr>gain_status := PStr g\<rparr>)))) s
                else (Returns (), s\<lparr>eq_status := PStr ''na'', gain_status := PStr ''na''\<rparr>))
       (\<lambda>_. andthen get_srate
       (\<lambda>r. andthen (\<lambda>s. (Returns (), s\<lparr>srate := r\<rparr>))
       (\<lambda>_. andthen (query ''*idn?'')
       (\<lambda>name. andthen (query ''SYSTem:VERSion?'')
       (\<lambda>version s.
          let config = [(''name'', PStr name), (''version'', PStr version),
                        (''channel'', PInt (ch s)), (''srate'', PInt (srate s)),
                        (''gain'', gain_status s), (''equalizer'', eq_status s)]
          in (Returns config, s\<lparr>config_info := config\<rparr>))))))))"

section \<open>Stream receiver\<close>

text \<open>
  \<^verbatim>\<open>open_stream\<close> has no test of its own: it makes a new socket, stores it and
  binds it. Storing it drops the last reference to the socket object the attribute
  held, which closes that socket and frees its port before the new one is bound.
  \<^verbatim>\<open>bind\<close> raises \<^verbatim>\<open>OverflowError\<close> for a port outside 0..65535 and
  \<^verbatim>\<open>OSError\<close> for a port another socket of the host holds. Port 0, for which the
  system picks a free port, is not treated apart.
\<close>

definition held_port :: "sock option \<Rightarrow> int list" where
  "held_port sk = (case sk of Some (Bound p) \<Rightarrow> [p] | _ \<Rightarrow> [])"

definition open_stream :: "int \<Rightarrow> unit prog" where
  "open_stream port s =
     (let free = filter (\<lambda>p. p \<notin> set (held_port (stream_socket s))) (ports_in_use (world s));
          s1 = s\<lparr>stream_socket := Some Unbound, world := (world s)\<lparr>ports_in_use := free\<rparr>\<rparr>
      in if port < 0 \<or> 65535 < port then (Raises OverflowError, s1)
         else if port \<in> set free then (Raises OSError, s1)
         else (Returns (),
               s1\<lparr>stream_socket := Some (Bound port),
                  world := (world s1)\<lparr>ports_in_use := port # free\<rparr>,
                  open_stream_port := True\<rparr>))"

definition close_stream :: "unit prog" where
  "close_stream s =
     (case stream_socket s of
        None \<Rightarrow> (Raises AttributeError, s)
      | Some sk \<Rightarrow>
          (Returns (),
           s\<lparr>stream_socket := Some Closed,
             world := (world s)\<lparr>ports_in_use :=
               filter (\<lambda>p. p \<notin> set (held_port (stream_socket s))) (ports_in_use (world s))\<rparr>,
             open_stream_port := False\<rparr>))"

text \<open>
  \<^verbatim>\<open>receivePacket\<close>. The stream socket has no timeout: with no datagram to come the
  call never returns. A datagram longer than \<^verbatim>\<open>packetSize\<close> is cut; one shorter than
  two bytes makes the indexing raise after the assignments before it.
\<close>

definition receivePacket :: "byte list prog" where
  "receivePacket s =
     (case stream_socket s of
        None \<Rightarrow> (Raises AttributeError, s)
      | Some sk \<Rightarrow>
          if packetSize s < 0 then (Raises (ValueError ''negative buffersize in recv''), s)
          else
            (case sk of
               Closed \<Rightarrow> (Raises OSError, s)
             | Unbound \<Rightarrow> (Blocks, s)
             | Bound p \<Rightarrow>
                 (case stream_rx (world s) of
                    [] \<Rightarrow> (Blocks, s)
                  | d # ds \<Rightarrow>
                      let rawdata = take (nat (packetSize s)) d;
                          s1 = s\<lparr>world := (world s)\<lparr>stream_rx := ds\<rparr>\<rparr>
                      in (case rawdata of
                            [] \<Rightarrow> (Raises IndexError, s1)
                          | [b0] \<Rightarrow> (Raises IndexError, s1\<lparr>rtpVersion := uint b0\<rparr>)
                          | b0 # b1 # bs \<Rightarrow>
                              let s2 = s1\<lparr>rtpVersion := uint b0,
                                          rtpPayloadType := uint b1,
                                          rtpSeqNum := BytesV (take 2 (drop 2 rawdata)),
                                          rtpTimestampNs := BytesV (take 4 (drop 4 rawdata)),
                                          rtpTimestampS := BytesV (take 4 (drop 8 rawdata)),
                                          oldSeqNum := newSeqNum s1\<rparr>;
                                  s3 = s2\<lparr>newSeqNum := int_from_bytes_big (take 2 (drop 2 rawdata))\<rparr>;
                                  s4 = (if oldSeqNum s3 = - 1
                                        then s3\<lparr>oldSeqNum := newSeqNum s3 - 1\<rparr> else s3)
                              in (Returns (drop 12 rawdata), s4)))))"

section \<open>WAV capture\<close>

text \<open>
  \<^verbatim>\<open>int(a / b)\<close> for integers \<open>a\<close> and \<open>b \<noteq> 0\<close>: the quotient, cut towards zero.
  Python forms the quotient as a float; it is the exact quotient whenever
  \<open>\<bar>a\<bar> < 2 ^ 53\<close> and \<open>b\<close> is a power of two, as the 512 samples of a packet are.
  Beyond that the rounding of the float is not modelled.
\<close>

definition int_truediv :: "int \<Rightarrow> int \<Rightarrow> int" where
  "int_truediv a b =
     (if (a < 0) = (b < 0) then \<bar>a\<bar> div \<bar>b\<bar> else - (\<bar>a\<bar> div \<bar>b\<bar>))"

text \<open>\<^verbatim>\<open>wave.open(filename, 'w')\<close> makes an empty file; \<^verbatim>\<open>setframerate\<close> refuses a
  rate that is not positive.\<close>

definition wav_open :: "string \<Rightarrow> world \<Rightarrow> world" where
  "wav_open filename w =
     w\<lparr>wav_files := (wav_files w)(filename \<mapsto> \<lparr>framerate = 0, frames = [], finalized = False\<rparr>)\<rparr>"

definition wav_update :: "string \<Rightarrow> (wav \<Rightarrow> wav) \<Rightarrow> NeXOS \<Rightarrow> NeXOS" where
  "wav_update filename f s =
     (case wav_files (world s) filename of
        None \<Rightarrow> s
      | Some obj \<Rightarrow> s\<lparr>world := (world s)\<lparr>wav_files := (wav_files (world s))(filename \<mapsto> f obj)\<rparr>\<rparr>)"

text \<open>The \<^verbatim>\<open>while\<close> loop of \<^verbatim>\<open>write_wav\<close>, on the file \<^verbatim>\<open>obj\<close> writes to.\<close>

function write_wav_loop :: "string \<Rightarrow> int \<Rightarrow> int \<Rightarrow> unit prog" where
  "write_wav_loop filename npackets totalPacketsCount s =
     (if totalPacketsCount < npackets then
        (case receivePacket s of
           (Returns newPacket, s1) \<Rightarrow>
             let s2 = wav_update filename (\<lambda>obj. obj\<lparr>frames := frames obj @ [newPacket]\<rparr>) s1;
                 seqGap = newSeqNum s2 - oldSeqNum s2;
                 s3 = (if seqGap > 1 then snd (log_event (LostMsg seqGap) s2) else s2)
             in write_wav_loop filename npackets (totalPacketsCount + 1) s3
         | (Raises e, s1) \<Rightarrow> (Raises e, s1)
         | (Blocks, s1) \<Rightarrow> (Blocks, s1))
      else (Returns (), s))"
  by pat_completeness auto
termination
  by (relation "measure (\<lambda>(filename, npackets, totalPacketsCount, s).
        nat (npackets - totalPacketsCount))") auto

declare write_wav_loop.simps [simp del]

text \<open>\<^verbatim>\<open>write_wav\<close>, for a whole number of seconds.\<close>

definition write_wav :: "int \<Rightarrow> string \<Rightarrow> bool \<Rightarrow> int prog" where
  "write_wav seconds prefix close =
     andthen (\<lambda>s. if config_info s = []
                   then andthen get_config (\<lambda>c s1. (Returns (), s1\<lparr>config_info := c\<rparr>)) s
                   else (Returns (), s))
       (\<lambda>_. andthen (\<lambda>s. if open_stream_port s = False
                          then open_stream (streaming_port s) s else (Returns (), s))
       (\<lambda>_. andthen (\<lambda>s. if samplesPerPacket s = 0 then (Raises ZeroDivisionError, s)
                          else (Returns (int_truediv (seconds * srate s) (samplesPerPacket s)), s))
       (\<lambda>npackets. andthen
          (\<lambda>s. (Returns (prefix @ ''_'' @ now_utc (world s) (clock_reads (world s)) @ ''.wav''),
                 s\<lparr>world := (world s)\<lparr>clock_reads := Suc (clock_reads (world s))\<rparr>\<rparr>))
       (\<lambda>filename. andthen
          (\<lambda>s. let s1 = s\<lparr>world := wav_open filename (world s)\<rparr> in
                if srate s1 \<le> 0 then (Raises WaveError, s1)
                else (Returns (), wav_update filename (\<lambda>obj. obj\<lparr>framerate := srate s1\<rparr>) s1))
       (\<lambda>_. andthen (write_wav_loop filename npackets 0)
       (\<lambda>_. andthen (\<lambda>s. (Returns (), wav_update filename (\<lambda>obj. obj\<lparr>finalized := True\<rparr>) s))
       (\<lambda>_. andthen (\<lambda>s. if close then close_stream s else (Returns (), s))
       (\<lambda>_. andthen (\<lambda>s. log_event (TagThread filename (config_info s)) s)
       (\<lambda>_. ret 1)))))))))"

section \<open>Streaming control\<close>

definition start_streaming :: "unit prog" where
  "start_streaming =
     andthen (\<lambda>s. set_recv_port (streaming_port s) s)
       (\<lambda>_. andthen get_config
       (\<lambda>_. set_param ''CONFigure:STATe'' (PStr ''RUN_CONTINUOUS'') False))"


definition get_streaming :: "string prog" where
  "get_streaming = query ''CONFigure:STATe?''"

section \<open>A laboratory setup\<close>

text \<open>A host with one serial device and no UDP port taken, where the given datagrams
  will arrive on the command socket and on the stream socket; and a client connected
  over UDP to the hydrophone of the example script.\<close>

definition lab_world :: "string list \<Rightarrow> byte list list \<Rightarrow> world" where
  "lab_world replies packets =
     \<lparr> serial_devices = [''/dev/ttyUSB0''], serial_rx = [], udp_rx = replies,
       stream_rx = packets, ports_in_use = [], now_utc = (\<lambda>k. ''20231120_101500z''),
       clock_reads = 0, wav_files = Map.empty, trace = [] \<rparr>"

definition udp_client :: "string list \<Rightarrow> byte list list \<Rightarrow> NeXOS" where
  "udp_client replies packets =
     (NeXOS_init (lab_world replies packets))
       \<lparr> interface := Some ''udp'', socket := Some Unbound,
         nexos_address := Some (''192.168.3.220'', 7777) \<rparr>"

text \<open>The same client once \<^verbatim>\<open>open_stream(4002)\<close> has bound the stream socket.\<close>

definition listening_client :: "string list \<Rightarrow> byte list list \<Rightarrow> NeXOS" where
  "listening_client replies packets = snd (open_stream 4002 (udp_client replies packets))"

text \<open>A datagram of the stream as the device lays it out: version, payload type, the
  sequence number in two bytes, high byte first, eight bytes of timestamp, the payload.\<close>

definition packet :: "int \<Rightarrow> byte list \<Rightarrow> byte list" where
  "packet seqnum payload =
     [2, 0, word_of_int (seqnum div 256), word_of_int (seqnum mod 256),
      0, 0, 0, 0, 0, 0, 0, 0] @ payload"

text \<open>A client that has opened the serial port of the host.\<close>

definition serial_client :: "string list \<Rightarrow> NeXOS" where
  "serial_client replies = snd (init_serial ''/dev/ttyUSB0'' (NeXOS_init (lab_world replies [])))"

text \<open>A UDP client whose configuration was refreshed from a device at 100 kHz on
  channel 1.\<close>

definition capture_client :: "byte list list \<Rightarrow> NeXOS" where
  "capture_client packets =
     (udp_client [] packets)
       \<lparr> config_info := [(''name'', PStr ''NeXOS A2''), (''version'', PStr ''1.0''),
                         (''channel'', PInt 1), (''srate'', PInt 100000),
                         (''gain'', PStr ''1''), (''equalizer'', PStr ''0'')],
         ch := 1, srate := 100000, gain_status := PStr ''1'', eq_status := PStr ''0'' \<rparr>"

text \<open>The first \<open>n\<close> datagrams of a stream, numbered from 0, each with two bytes of
  payload.\<close>

definition stream_of :: "nat \<Rightarrow> byte list list" where
  "stream_of n = map (\<lambda>k. packet (int k) [0, 1]) [0..<n]"

text \<open>The answers of a device with channel 1 active, equalizer off, gain on, at
  100 kHz: to the queries of \<^verbatim>\<open>get_config\<close>, and to those of
  \<^verbatim>\<open>start_streaming\<close>.\<close>

definition config_replies :: "string list" where
  "config_replies = map (\<lambda>r. r @ crlf) [''1'', ''0'', ''1'', ''100000'', ''NeXOS A2'', ''1.0'']"

definition streaming_replies :: "string list" where
  "streaming_replies = [''4002'' @ crlf] @ config_replies @ [''RUN_CONTINUOUS'' @ crlf]"

text \<open>The sequence of the example script: \<^verbatim>\<open>start_streaming()\<close> with the device at
  100 kHz, then \<^verbatim>\<open>set_srate(200000)\<close>, which the device confirms. This is the client
  after the two calls.\<close>

definition retuned_client :: "byte list list \<Rightarrow> NeXOS" where
  "retuned_client packets =
     snd (set_srate 200000
       (snd (start_streaming
         (udp_client (streaming_replies @ [''200000'' @ crlf]) packets))))"

text \<open>A client with a cached configuration whose user has called
  \<^verbatim>\<open>open_stream(4003)\<close>; \<open>streaming_port\<close> is still 4002.\<close>

definition recording_client :: "byte list list \<Rightarrow> NeXOS" where
  "recording_client packets = snd (open_stream 4003 (capture_client packets))"

section \<open>Calls that return\<close>

text \<open>The call returns from the given state, and its result and the state it leaves
  satisfy the condition.\<close>

definition returns_with :: "'a prog \<Rightarrow> NeXOS \<Rightarrow> ('a \<Rightarrow> NeXOS \<Rightarrow> bool) \<Rightarrow> bool" where
  "returns_with m s Q =
     (case m s of (Returns x, s') \<Rightarrow> Q x s' | (Raises e, s') \<Rightarrow> False | (Blocks, s') \<Rightarrow> False)"

text \<open>A call that found the stream open left the stream socket alone and the flag
  set.\<close>

definition keeps_open_stream :: "NeXOS \<Rightarrow> NeXOS \<Rightarrow> bool" where
  "keeps_open_stream a b =
     (open_stream_port a \<longrightarrow> stream_socket b = stream_socket a \<and> open_stream_port b)"

text \<open>A capture that found the stream open left the stream socket alone and the flag
  set, unless it was told to close and ran to its last line: then the socket is closed
  and the flag cleared.\<close>

definition leaves_stream :: "bool \<Rightarrow> int outcome \<Rightarrow> NeXOS \<Rightarrow> NeXOS \<Rightarrow> bool" where
  "leaves_stream close r a b =
     (open_stream_port a \<longrightarrow>
        (if close \<and> r = Returns 1
         then stream_socket b = Some Closed \<and> \<not> open_stream_port b
         else stream_socket b = stream_socket a \<and> open_stream_port b))"

section \<open>What a call leaves behind\<close>

lemma only_world_refl: "only_world s s"
  by (simp add: only_world_def)

lemma only_world_trans: "only_world s t \<Longrightarrow> only_world t u \<Longrightarrow> only_world s u"
proof -
  assume a: "only_world s t" and b: "only_world t u"
  from a obtain w where t: "t = s\<lparr>world := w\<rparr>" unfolding only_world_def by blast
  from b have "u = t\<lparr>world := world u\<rparr>" by (simp add: only_world_def)
  with t have "u = s\<lparr>world := world u\<rparr>" by simp
  then show ?thesis by (simp add: only_world_def)
qed

lemma only_world_upd: "only_world s (s\<lparr>world := w\<rparr>)"
  by (simp add: only_world_def)

lemma sent_log_event: "sent (snd (log_event e s)) = sent s @ tx_of e"
  by (simp add: sent_def log_event_def)

lemma send_sent:
  "send c s = (Returns x, s') \<Longrightarrow> sent s' = sent s @ [c @ crlf]"
  by (auto simp: send_def send_serial_def send_udp_def andthen_def log_event_def sleep_def
      ret_def sent_def split: if_splits option.splits)

lemma send_frame:
  "send c s = (r, s') \<Longrightarrow> only_world s s'"
  by (auto simp: send_def send_serial_def send_udp_def andthen_def log_event_def sleep_def
      ret_def only_world_def split: if_splits option.splits)

lemma recv_sent:
  "recv n s = (r, s') \<Longrightarrow> sent s' = sent s"
  by (auto simp: recv_def recv_udp_def recv_serial_def andthen_def log_event_def sleep_def
      ret_def sent_def split: if_splits option.splits prod.splits outcome.splits)

lemma recv_frame:
  "recv n s = (r, s') \<Longrightarrow> only_world s s'"
  by (auto simp: recv_def recv_udp_def recv_serial_def andthen_def log_event_def sleep_def
      ret_def only_world_def split: if_splits option.splits prod.splits outcome.splits)

lemma query_sent:
  "query c s = (Returns x, s') \<Longrightarrow> sent s' = sent s @ [c @ crlf]"
  unfolding query_def andthen_def
  by (auto simp: ret_def raise_def dest!: send_sent recv_sent split: prod.splits outcome.splits option.splits)

lemma query_frame:
  "query c s = (r, s') \<Longrightarrow> only_world s s'"
  unfolding query_def andthen_def
  by (auto simp: ret_def raise_def only_world_refl dest!: send_frame recv_frame
      intro: only_world_trans split: prod.splits outcome.splits option.splits)

lemma sent_sleep: "sent (snd (sleep ms s)) = sent s"
  by (simp add: sleep_def log_event_def sent_def)

lemma sleep_frame: "only_world s (snd (sleep ms s))"
  by (simp add: sleep_def log_event_def only_world_def)

section \<open>The set-then-verify contract\<close>

lemma fst_collapse: "fst p = a \<Longrightarrow> p = (a, snd p)"
  by (cases p) simp

lemma set_param_success_iff:
  "(fst (set_param param val enclose s) = Returns ()) =
   (\<exists>s1 s2. send (if \<not> enclose then param @ '' '' @ str val
                    else param @ '' '' @ [DQ] @ str val @ [DQ]) s = (Returns (), s1) \<and>
       query (param @ ''?'') (snd (sleep 200 s1)) = (Returns (str val), s2))"
  by (auto simp: set_param_def andthen_def sleep_def log_event_def ret_def raise_def
      split: prod.splits outcome.splits)

text \<open>
  C2. \<^verbatim>\<open>set(param, value)\<close> sends the command, sleeps the settle interval of 0.2 s
  and queries the parameter back. When the command was sent and the query came back with
  an echo, the call returns exactly when the echo equals the string of the requested
  value, and raises the \<^verbatim>\<open>ValueError\<close> of the verification otherwise; in both cases
  one command and one query went to the device, so nothing was retried.
\<close>

theorem set_param_verifies:
  assumes "send (if \<not> enclose then param @ '' '' @ str val
                 else param @ '' '' @ [DQ] @ str val @ [DQ]) s = (Returns (), s1)"
    and "query (param @ ''?'') (snd (sleep 200 s1)) = (Returns echoed, s2)"
  shows "set_param param val enclose s =
     (if echoed = str val then (Returns (), s2)
      else (Raises (ValueError (''could not set param '' @ param @ ''!!'')), s2)) \<and>
   trace (world (snd (sleep 200 s1))) = trace (world s1) @ [Sleep 200] \<and>
   sent s2 = sent s @
     [(if \<not> enclose then param @ '' '' @ str val
       else param @ '' '' @ [DQ] @ str val @ [DQ]) @ crlf,
      param @ ''?'' @ crlf]"
proof -
  let ?cmd = "if \<not> enclose then param @ '' '' @ str val
              else param @ '' '' @ [DQ] @ str val @ [DQ]"
  have res: "set_param param val enclose s =
     (if echoed = str val then (Returns (), s2)
      else (Raises (ValueError (''could not set param '' @ param @ ''!!'')), s2))"
    using assms
    by (simp add: set_param_def andthen_def sleep_def log_event_def ret_def raise_def)
  have tr: "trace (world (snd (sleep 200 s1))) = trace (world s1) @ [Sleep 200]"
    by (simp add: sleep_def log_event_def)
  have "sent s2 = sent (snd (sleep 200 s1)) @ [(param @ ''?'') @ crlf]"
    using assms(2) by (rule query_sent)
  moreover have "sent s1 = sent s @ [?cmd @ crlf]"
    using assms(1) by (rule send_sent)
  ultimately have tx: "sent s2 = sent s @ [?cmd @ crlf, param @ ''?'' @ crlf]"
    by (simp add: sent_sleep)
  from res tr tx show ?thesis
    by blast
qed

theorem set_param_verifies_witness:
  "send ''CONFigure:ACQuire:SRATe 100000'' (udp_client [''50000'' @ crlf] []) =
     (Returns (), snd (send ''CONFigure:ACQuire:SRATe 100000'' (udp_client [''50000'' @ crlf] []))) \<and>
   fst (query ''CONFigure:ACQuire:SRATe?''
     (snd (sleep 200 (snd (send ''CONFigure:ACQuire:SRATe 100000''
        (udp_client [''50000'' @ crlf] [])))))) = Returns ''50000'' \<and>
   fst (set_param ''CONFigure:ACQuire:SRATe'' (PInt 100000) False
          (udp_client [''50000'' @ crlf] [])) =
     Raises (ValueError ''could not set param CONFigure:ACQuire:SRATe!!'') \<and>
   sent (snd (set_param ''CONFigure:ACQuire:SRATe'' (PInt 100000) False
          (udp_client [''50000'' @ crlf] []))) =
     [''CONFigure:ACQuire:SRATe 100000'' @ crlf, ''CONFigure:ACQuire:SRATe?'' @ crlf]"
proof -
  let ?s = "udp_client [''50000'' @ crlf] []"
  let ?s1 = "snd (send ''CONFigure:ACQuire:SRATe 100000'' ?s)"
  let ?q = "query ''CONFigure:ACQuire:SRATe?'' (snd (sleep 200 ?s1))"
  have v: "str_int 100000 = ''100000''"
    by code_simp
  have a0: "fst (send ''CONFigure:ACQuire:SRATe 100000'' ?s) = Returns ()"
    by code_simp
  have a: "send ''CONFigure:ACQuire:SRATe 100000'' ?s = (Returns (), ?s1)"
    by (rule fst_collapse [OF a0])
  have cmd: "(if \<not> False then ''CONFigure:ACQuire:SRATe'' @ '' '' @ str (PInt 100000)
                 else ''CONFigure:ACQuire:SRATe'' @ '' '' @ [DQ] @ str (PInt 100000) @ [DQ])
             = ''CONFigure:ACQuire:SRATe 100000''"
    by (simp add: v)
  have qn: "''CONFigure:ACQuire:SRATe'' @ ''?'' = ''CONFigure:ACQuire:SRATe?''"
    by simp
  have a': "send (if \<not> False then ''CONFigure:ACQuire:SRATe'' @ '' '' @ str (PInt 100000)
                 else ''CONFigure:ACQuire:SRATe'' @ '' '' @ [DQ] @ str (PInt 100000) @ [DQ]) ?s
             = (Returns (), ?s1)"
    unfolding cmd by (rule a)
  have b1: "fst ?q = Returns ''50000''"
    by code_simp
  have b: "query (''CONFigure:ACQuire:SRATe'' @ ''?'') (snd (sleep 200 ?s1)) = (Returns ''50000'', snd ?q)"
    unfolding qn by (rule fst_collapse [OF b1])
  have e: "\<And>r p. sent (udp_client r p) = []"
    by (simp add: sent_def udp_client_def lab_world_def NeXOS_init_def)
  note r = set_param_verifies [OF a' b]
  from r [THEN conjunct1] have c: "set_param ''CONFigure:ACQuire:SRATe'' (PInt 100000) False ?s =
          (Raises (ValueError ''could not set param CONFigure:ACQuire:SRATe!!''), snd ?q)"
    by (simp add: v)
  from r [THEN conjunct2, THEN conjunct2] have d: "sent (snd ?q) =
          [''CONFigure:ACQuire:SRATe 100000'' @ crlf, ''CONFigure:ACQuire:SRATe?'' @ crlf]"
    by (simp add: v e)
  from c have c1: "fst (set_param ''CONFigure:ACQuire:SRATe'' (PInt 100000) False ?s) =
      Raises (ValueError ''could not set param CONFigure:ACQuire:SRATe!!'')"
    by simp
  from c d have d1: "sent (snd (set_param ''CONFigure:ACQuire:SRATe'' (PInt 100000) False ?s)) =
      [''CONFigure:ACQuire:SRATe 100000'' @ crlf, ''CONFigure:ACQuire:SRATe?'' @ crlf]"
    by simp
  show ?thesis
    by (rule conjI [OF a conjI [OF b1 conjI [OF c1 d1]]])
qed

section \<open>Parameter checks\<close>

text \<open>
  C4. A sample rate outside 50000, 100000, 200000 makes \<^verbatim>\<open>set_srate\<close> fail on its
  assertion, and a channel outside 1, 2 makes \<^verbatim>\<open>set_channel\<close> fail on its assertion,
  both in the state they were called in: nothing was transmitted.
\<close>

theorem invalid_parameter_rejected_before_io:
  "(sr \<notin> {50000, 100000, 200000} \<longrightarrow>
      set_srate sr s = (Raises AssertionError, s) \<and> sent (snd (set_srate sr s)) = sent s) \<and>
   (c \<notin> {1, 2} \<longrightarrow>
      set_channel c s = (Raises AssertionError, s) \<and> sent (snd (set_channel c s)) = sent s)"
  by (simp add: set_srate_def set_channel_def raise_def)

theorem invalid_parameter_rejected_before_io_witness:
  "(12345::int) \<notin> {50000, 100000, 200000} \<and>
   set_srate 12345 (udp_client [] []) = (Raises AssertionError, udp_client [] []) \<and>
   sent (snd (set_srate 12345 (udp_client [] []))) = sent (udp_client [] []) \<and>
   (3::int) \<notin> {1, 2} \<and>
   set_channel 3 (udp_client [] []) = (Raises AssertionError, udp_client [] []) \<and>
   sent (snd (set_channel 3 (udp_client [] []))) = sent (udp_client [] [])"
  using invalid_parameter_rejected_before_io [of 12345 "udp_client [] []" 3]
  by simp

text \<open>
  C10. When the answer to the channel query reads as an integer, \<^verbatim>\<open>get_channel\<close>
  returns 1 if that integer is 1 and 2 for every other integer; whatever it returns is
  1 or 2.
\<close>

theorem get_channel_one_or_two:
  "(query ''INPut1:STATe?'' s = (Returns r, s') \<and> py_int r = Some n \<longrightarrow>
      get_channel s = (Returns (if n = 1 then 1 else 2), s')) \<and>
   (get_channel s = (Returns c, t) \<longrightarrow> c = 1 \<or> c = 2)"
  by (auto simp: get_channel_def andthen_def ret_def raise_def
      split: prod.splits outcome.splits option.splits if_splits)

theorem get_channel_one_or_two_witness:
  "query ''INPut1:STATe?'' (udp_client [''0'' @ crlf] []) =
     (Returns ''0'', snd (query ''INPut1:STATe?'' (udp_client [''0'' @ crlf] []))) \<and>
   py_int ''0'' = Some 0 \<and>
   get_channel (udp_client [''0'' @ crlf] []) =
     (Returns 2, snd (query ''INPut1:STATe?'' (udp_client [''0'' @ crlf] []))) \<and>
   get_channel (udp_client [''7'' @ crlf] []) =
     (Returns 2, snd (get_channel (udp_client [''7'' @ crlf] []))) \<and>
   get_channel (udp_client [''1'' @ crlf] []) =
     (Returns 1, snd (get_channel (udp_client [''1'' @ crlf] []))) \<and>
   ((2::int) = 1 \<or> (2::int) = 2)"
proof -
  let ?s = "udp_client [''0'' @ crlf] []"
  have q: "query ''INPut1:STATe?'' ?s = (Returns ''0'', snd (query ''INPut1:STATe?'' ?s))"
    by (rule fst_collapse) code_simp
  have p: "py_int ''0'' = Some 0"
    by code_simp
  have g7: "get_channel (udp_client [''7'' @ crlf] []) =
     (Returns 2, snd (get_channel (udp_client [''7'' @ crlf] [])))"
    by (rule fst_collapse) code_simp
  have g1: "get_channel (udp_client [''1'' @ crlf] []) =
     (Returns 1, snd (get_channel (udp_client [''1'' @ crlf] [])))"
    by (rule fst_collapse) code_simp
  from get_channel_one_or_two [of ?s "''0''" "snd (query ''INPut1:STATe?'' ?s)" 0] q p
  have "get_channel ?s = (Returns 2, snd (query ''INPut1:STATe?'' ?s))"
    by simp
  moreover note get_channel_one_or_two [THEN conjunct2, THEN mp, OF g7]
  ultimately show ?thesis
    using q p g7 g1 by blast
qed


section \<open>Sequence numbers of the stream\<close>

text \<open>
  C9. When the previous sequence number still is the \<open>-1\<close> of the constructor,
  \<^verbatim>\<open>receivePacket\<close> sets it to the new sequence number minus 1: the gap the capture
  loop computes is 1, the loop goes on to the next packet and logs no loss, whatever
  the sequence number of that first packet.
\<close>

theorem first_packet_gap_is_one:
  assumes "newSeqNum s = - 1"
    and "receivePacket s = (Returns payload, s')"
  shows "oldSeqNum s' = newSeqNum s' - 1 \<and>
         newSeqNum s' - oldSeqNum s' = 1 \<and>
         trace (world s') = trace (world s) \<and>
         (c < n \<longrightarrow>
            write_wav_loop filename n c s =
              write_wav_loop filename n (c + 1)
                (wav_update filename (\<lambda>obj. obj\<lparr>frames := frames obj @ [payload]\<rparr>) s') \<and>
            trace (world (wav_update filename (\<lambda>obj. obj\<lparr>frames := frames obj @ [payload]\<rparr>) s'))
              = trace (world s))"
proof -
  have g: "oldSeqNum s' = newSeqNum s' - 1 \<and> trace (world s') = trace (world s)"
    using assms
    by (auto simp: receivePacket_def Let_def split: option.splits sock.splits list.splits if_splits)
  have w: "\<And>f t. newSeqNum (wav_update filename f t) = newSeqNum t \<and>
             oldSeqNum (wav_update filename f t) = oldSeqNum t \<and>
             trace (world (wav_update filename f t)) = trace (world t)"
    by (simp add: wav_update_def split: option.splits)
  have l: "c < n \<Longrightarrow> write_wav_loop filename n c s =
              write_wav_loop filename n (c + 1)
                (wav_update filename (\<lambda>obj. obj\<lparr>frames := frames obj @ [payload]\<rparr>) s')"
    using assms(2) g by (subst write_wav_loop.simps) (simp add: w Let_def)
  from g w l show ?thesis by simp
qed

theorem first_packet_gap_is_one_witness:
  "newSeqNum (listening_client [] [packet 40000 [1, 2]]) = - 1 \<and>
   fst (receivePacket (listening_client [] [packet 40000 [1, 2]])) = Returns [1, 2] \<and>
   newSeqNum (snd (receivePacket (listening_client [] [packet 40000 [1, 2]]))) = 40000 \<and>
   newSeqNum (snd (receivePacket (listening_client [] [packet 40000 [1, 2]]))) -
     oldSeqNum (snd (receivePacket (listening_client [] [packet 40000 [1, 2]]))) = 1 \<and>
   trace (world (snd (receivePacket (listening_client [] [packet 40000 [1, 2]])))) =
     trace (world (listening_client [] [packet 40000 [1, 2]])) \<and>
   (0::int) < 1 \<and>
   write_wav_loop ''x.wav'' 1 0 (listening_client [] [packet 40000 [1, 2]]) =
     write_wav_loop ''x.wav'' 1 (0 + 1)
       (wav_update ''x.wav'' (\<lambda>obj. obj\<lparr>frames := frames obj @ [[1, 2]]\<rparr>)
          (snd (receivePacket (listening_client [] [packet 40000 [1, 2]])))) \<and>
   trace (world (wav_update ''x.wav'' (\<lambda>obj. obj\<lparr>frames := frames obj @ [[1, 2]]\<rparr>)
          (snd (receivePacket (listening_client [] [packet 40000 [1, 2]]))))) =
     trace (world (listening_client [] [packet 40000 [1, 2]]))"
proof -
  let ?s = "listening_client [] [packet 40000 [1, 2]]"
  have a: "newSeqNum ?s = - 1"
    by code_simp
  have b: "fst (receivePacket ?s) = Returns [1, 2]"
    by code_simp
  have c: "newSeqNum (snd (receivePacket ?s)) = 40000"
    by code_simp
  have lt: "(0::int) < 1"
    by simp
  note r = first_packet_gap_is_one [where c = 0 and n = 1 and filename = "''x.wav''",
      OF a fst_collapse [OF b]]
  note l = r [THEN conjunct2, THEN conjunct2, THEN conjunct2, THEN mp, OF lt]
  show ?thesis
    by (rule conjI [OF a conjI [OF b conjI [OF c
          conjI [OF r [THEN conjunct2, THEN conjunct1]
            conjI [OF r [THEN conjunct2, THEN conjunct2, THEN conjunct1]
              conjI [OF lt l]]]]]])
qed

text \<open>
  C1. The capture loop computes the gap as the plain difference of the two sequence
  numbers. From 65535 to 2 the difference is \<open>-65533\<close>, not the 3 of the 16-bit
  counter, and no loss is logged for the two packets that are missing; from 10 to 13
  the loop logs 3 as the number of lost packets where 2 are missing.
\<close>

theorem wraparound_loss_unreported:
  "fst (write_wav_loop ''x.wav'' 2 0 (listening_client [] [packet 65535 [], packet 2 []])) = Returns () \<and>
   newSeqNum (snd (write_wav_loop ''x.wav'' 2 0 (listening_client [] [packet 65535 [], packet 2 []]))) = 2 \<and>
   oldSeqNum (snd (write_wav_loop ''x.wav'' 2 0 (listening_client [] [packet 65535 [], packet 2 []]))) = 65535 \<and>
   trace (world (snd (write_wav_loop ''x.wav'' 2 0
     (listening_client [] [packet 65535 [], packet 2 []])))) = [] \<and>
   trace (world (snd (write_wav_loop ''x.wav'' 2 0
     (listening_client [] [packet 10 [], packet 13 []])))) = [LostMsg 3]"
  by code_simp

section \<open>Configuration refresh and streaming control\<close>

lemma only_world_fields:
  "only_world s s' \<Longrightarrow>
     config_info s' = config_info s \<and> ch s' = ch s \<and> srate s' = srate s \<and>
     gain_status s' = gain_status s \<and> eq_status s' = eq_status s \<and>
     streaming_port s' = streaming_port s \<and> interface s' = interface s \<and>
     socket s' = socket s \<and> serial s' = serial s \<and>
     stream_socket s' = stream_socket s \<and> open_stream_port s' = open_stream_port s"
  unfolding only_world_def by (erule ssubst) simp

lemma get_channel_frame: "get_channel s = (r, s') \<Longrightarrow> only_world s s'"
  unfolding get_channel_def andthen_def
  by (auto simp: ret_def raise_def dest!: query_frame
      split: prod.splits outcome.splits option.splits if_splits)

lemma get_channel_sent:
  "get_channel s = (Returns c, s') \<Longrightarrow> sent s' = sent s @ [''INPut1:STATe?'' @ crlf]"
  unfolding get_channel_def andthen_def
  by (auto simp: ret_def raise_def dest!: query_sent
      split: prod.splits outcome.splits option.splits if_splits)

lemma get_srate_frame: "get_srate s = (r, s') \<Longrightarrow> only_world s s'"
  unfolding get_srate_def andthen_def
  by (auto simp: ret_def raise_def dest!: query_frame
      split: prod.splits outcome.splits option.splits if_splits)

lemma get_srate_sent:
  "get_srate s = (Returns c, s') \<Longrightarrow> sent s' = sent s @ [''CONFigure:ACQuire:SRATe?'' @ crlf]"
  unfolding get_srate_def andthen_def
  by (auto simp: ret_def raise_def dest!: query_sent
      split: prod.splits outcome.splits option.splits if_splits)

lemma sent_upd [simp]:
  "sent (s\<lparr>ch := a\<rparr>) = sent s"
  "sent (s\<lparr>srate := b\<rparr>) = sent s"
  "sent (s\<lparr>eq_status := e\<rparr>) = sent s"
  "sent (s\<lparr>gain_status := g\<rparr>) = sent s"
  "sent (s\<lparr>config_info := c\<rparr>) = sent s"
  by (simp_all add: sent_def)

lemma andthenE:
  assumes "andthen m f s = (r, s')"
  obtains (returns) x s1 where "m s = (Returns x, s1)" and "f x s1 = (r, s')"
    | (raises) e where "m s = (Raises e, s')" and "r = Raises e"
    | (blocks) "m s = (Blocks, s')" and "r = Blocks"
  using assms unfolding andthen_def
  by (auto split: prod.splits outcome.splits)

lemma query_attrs:
  "query c s = (r, s') \<Longrightarrow>
     config_info s' = config_info s \<and> ch s' = ch s \<and>
     eq_status s' = eq_status s \<and> gain_status s' = gain_status s"
  by (auto dest!: query_frame only_world_fields)

lemma get_srate_attrs:
  "get_srate s = (r, s') \<Longrightarrow>
     config_info s' = config_info s \<and> ch s' = ch s \<and>
     eq_status s' = eq_status s \<and> gain_status s' = gain_status s"
  by (auto dest!: get_srate_frame only_world_fields)

lemma get_channel_attrs:
  assumes "get_channel s = (r, s')"
  shows "config_info s' = config_info s \<and> (\<forall>c. r = Returns c \<longrightarrow> c = 1 \<or> c = 2)"
proof -
  have "config_info s' = config_info s"
    using only_world_fields [OF get_channel_frame [OF assms]] by simp
  moreover have "\<forall>c. r = Returns c \<longrightarrow> c = 1 \<or> c = 2"
    using assms unfolding get_channel_def
    by (elim andthenE) (auto simp: ret_def raise_def split: option.splits if_splits)
  ultimately show ?thesis by simp
qed

lemma eq_gain_attrs:
  "andthen (query a)
     (\<lambda>e. andthen (\<lambda>s. (Returns (), s\<lparr>eq_status := PStr e\<rparr>))
       (\<lambda>_. andthen (query b) (\<lambda>g s. (Returns (), s\<lparr>gain_status := PStr g\<rparr>)))) s = (r, s')
   \<Longrightarrow> config_info s' = config_info s \<and> ch s' = ch s"
  by (elim andthenE) (auto dest!: query_attrs)

lemma get_config_cache:
  "get_config s = (r, s') \<Longrightarrow>
     (case r of
        Returns c \<Rightarrow>
          config_info s' = c \<and>
          (\<exists>name version.
             c = [(''name'', PStr name), (''version'', PStr version),
                  (''channel'', PInt (ch s')), (''srate'', PInt (srate s')),
                  (''gain'', gain_status s'), (''equalizer'', eq_status s')]) \<and>
          (ch s' = 1 \<or>
           ch s' = 2 \<and> gain_status s' = PStr ''na'' \<and> eq_status s' = PStr ''na'')
      | Raises e \<Rightarrow> config_info s' = config_info s
      | Blocks \<Rightarrow> config_info s' = config_info s)"
  unfolding get_config_def get_equalizer_def get_gain_def
  apply (elim andthenE)
                      apply (simp_all split: if_splits)
                      apply (auto simp: Let_def dest!: eq_gain_attrs query_attrs get_channel_attrs get_srate_attrs)
  done

lemma query_effect:
  assumes "query c s = (Returns x, s')"
  shows "sent s' = sent s @ [c @ crlf] \<and> ch s' = ch s \<and>
         streaming_port s' = streaming_port s"
  using query_sent [OF assms] only_world_fields [OF query_frame [OF assms]] by simp

lemma get_channel_effect:
  assumes "get_channel s = (Returns x, s')"
  shows "sent s' = sent s @ [''INPut1:STATe?'' @ crlf] \<and> ch s' = ch s \<and>
         streaming_port s' = streaming_port s"
  using get_channel_sent [OF assms] only_world_fields [OF get_channel_frame [OF assms]]
  by simp

lemma get_srate_effect:
  assumes "get_srate s = (Returns x, s')"
  shows "sent s' = sent s @ [''CONFigure:ACQuire:SRATe?'' @ crlf] \<and> ch s' = ch s \<and>
         streaming_port s' = streaming_port s"
  using get_srate_sent [OF assms] only_world_fields [OF get_srate_frame [OF assms]]
  by simp

lemma eq_gain_effect:
  "andthen (query a)
     (\<lambda>e. andthen (\<lambda>s. (Returns (), s\<lparr>eq_status := PStr e\<rparr>))
       (\<lambda>_. andthen (query b) (\<lambda>g s. (Returns (), s\<lparr>gain_status := PStr g\<rparr>)))) s
     = (Returns x, s')
   \<Longrightarrow> sent s' = sent s @ [a @ crlf, b @ crlf] \<and> ch s' = ch s \<and>
       streaming_port s' = streaming_port s"
  by (elim andthenE) (auto dest!: query_effect)

lemma get_config_sent:
  "get_config s = (Returns c, s') \<Longrightarrow>
     sent s' = sent s @
       [''INPut1:STATe?'' @ crlf] @
       (if ch s' = 1 then [''INPut1:EQUalizer:STATe?'' @ crlf, ''INPut1:GAIN:STATe?'' @ crlf]
        else []) @
       [''CONFigure:ACQuire:SRATe?'' @ crlf, ''*idn?'' @ crlf, ''SYSTem:VERSion?'' @ crlf] \<and>
     streaming_port s' = streaming_port s"
  unfolding get_config_def get_equalizer_def get_gain_def
  apply (elim andthenE)
                      apply (simp_all split: if_splits)
   apply (auto simp: Let_def dest!: eq_gain_effect query_effect get_channel_effect get_srate_effect)
  done







lemma query_fields:
  "query c s = (r, s') \<Longrightarrow>
     config_info s' = config_info s \<and> ch s' = ch s \<and> srate s' = srate s \<and>
     eq_status s' = eq_status s \<and> gain_status s' = gain_status s"
  by (auto dest!: query_frame only_world_fields)

lemma get_srate_fields:
  "get_srate s = (r, s') \<Longrightarrow>
     config_info s' = config_info s \<and> ch s' = ch s \<and> srate s' = srate s \<and>
     eq_status s' = eq_status s \<and> gain_status s' = gain_status s"
  by (auto dest!: get_srate_frame only_world_fields)

lemma sent_udp_client: "sent (udp_client r p) = []"
  by (simp add: sent_def udp_client_def NeXOS_init_def lab_world_def)

text \<open>The equalizer and gain block of \<^verbatim>\<open>get_config\<close> when it returns: both states
  were asked for, and the attributes hold the two answers.\<close>

lemma eq_gain_answers:
  assumes "andthen get_equalizer
     (\<lambda>e. andthen (\<lambda>s. (Returns (), s\<lparr>eq_status := PStr e\<rparr>))
       (\<lambda>_. andthen get_gain (\<lambda>g s. (Returns (), s\<lparr>gain_status := PStr g\<rparr>)))) s
     = (Returns x, s')"
  shows "\<exists>e t g u. get_equalizer s = (Returns e, t) \<and>
         get_gain (t\<lparr>eq_status := PStr e\<rparr>) = (Returns g, u) \<and>
         s' = u\<lparr>gain_status := PStr g\<rparr> \<and>
         eq_status s' = PStr e \<and> gain_status s' = PStr g \<and> ch s' = ch s"
proof -
  from assms obtain e t g u where
    1: "get_equalizer s = (Returns e, t)" and
    2: "get_gain (t\<lparr>eq_status := PStr e\<rparr>) = (Returns g, u)" and
    3: "s' = u\<lparr>gain_status := PStr g\<rparr>"
    by (elim andthenE) auto
  from query_fields [OF 1 [unfolded get_equalizer_def]]
       query_fields [OF 2 [unfolded get_gain_def]] 3
  have "eq_status s' = PStr e \<and> gain_status s' = PStr g \<and> ch s' = ch s" by simp
  with 1 2 3 show ?thesis by blast
qed

text \<open>When \<^verbatim>\<open>get_config\<close> returns, every entry of the dictionary is the answer to a
  query made in this call, each query made in the state the one before left.\<close>

lemma get_config_answers:
  assumes "get_config s = (Returns c, s')"
  shows "\<exists>a s1 e g s2 n s3 name s4 version s5.
     get_channel s = (Returns a, s1) \<and>
     (if a = 1
      then \<exists>t u. get_equalizer (s1\<lparr>ch := a\<rparr>) = (Returns e, t) \<and>
                 get_gain (t\<lparr>eq_status := PStr e\<rparr>) = (Returns g, u) \<and>
                 s2 = u\<lparr>gain_status := PStr g\<rparr>
      else e = ''na'' \<and> g = ''na'' \<and>
           s2 = s1\<lparr>ch := a, eq_status := PStr ''na'', gain_status := PStr ''na''\<rparr>) \<and>
     get_srate s2 = (Returns n, s3) \<and>
     query ''*idn?'' (s3\<lparr>srate := n\<rparr>) = (Returns name, s4) \<and>
     query ''SYSTem:VERSion?'' s4 = (Returns version, s5) \<and>
     c = [(''name'', PStr name), (''version'', PStr version),
          (''channel'', PInt a), (''srate'', PInt n),
          (''gain'', PStr g), (''equalizer'', PStr e)] \<and>
     s' = s5\<lparr>config_info := c\<rparr>"
  using assms unfolding get_config_def
  apply (elim andthenE)
                      apply (simp_all split: if_splits)
  subgoal for a s1 s2 r s3 name s4 version s5
    apply (drule eq_gain_answers)
    apply (frule get_srate_fields)
    apply (frule query_fields [where c = "''*idn?''"])
    apply (frule query_fields [where c = "''SYSTem:VERSion?''"])
    apply (auto simp: Let_def)
    done
  subgoal for a s1 r s3 name s4 version s5
    apply (frule get_srate_fields)
    apply (frule query_fields [where c = "''*idn?''"])
    apply (frule query_fields [where c = "''SYSTem:VERSion?''"])
    apply (frule get_channel_attrs)
    apply (auto simp: Let_def)
    done
  done

text \<open>Whatever the outcome of the equalizer and gain block, an answer that came in
  is in its attribute.\<close>

lemma eq_gain_partial:
  assumes "andthen get_equalizer
     (\<lambda>e. andthen (\<lambda>s. (Returns (), s\<lparr>eq_status := PStr e\<rparr>))
       (\<lambda>_. andthen get_gain (\<lambda>g s. (Returns (), s\<lparr>gain_status := PStr g\<rparr>)))) s
     = (r, s')"
  shows "ch s' = ch s \<and>
     (\<forall>e t. get_equalizer s = (Returns e, t) \<longrightarrow>
        eq_status s' = PStr e \<and>
        (\<forall>g u. get_gain (t\<lparr>eq_status := PStr e\<rparr>) = (Returns g, u) \<longrightarrow>
           gain_status s' = PStr g))"
  using assms
proof (cases rule: andthenE)
  case (returns e t)
  note eq = returns(1) and rest = returns(2)
  have f1: "ch t = ch s \<and> eq_status t = eq_status s"
    using query_fields [OF eq [unfolded get_equalizer_def]] by simp
  from rest have "andthen get_gain (\<lambda>g s. (Returns (), s\<lparr>gain_status := PStr g\<rparr>))
      (t\<lparr>eq_status := PStr e\<rparr>) = (r, s')"
    by (simp add: andthen_def)
  then show ?thesis
  proof (cases rule: andthenE)
    case (returns g u)
    with f1 eq query_fields [OF returns(1) [unfolded get_gain_def]]
    show ?thesis by auto
  next
    case (raises x)
    with f1 eq query_fields [OF raises(1) [unfolded get_gain_def]]
    show ?thesis by auto
  next
    case blocks
    with f1 eq query_fields [OF blocks(1) [unfolded get_gain_def]]
    show ?thesis by auto
  qed
next
  case (raises x)
  with query_fields [OF raises(1) [unfolded get_equalizer_def]]
  show ?thesis by auto
next
  case blocks
  with query_fields [OF blocks(1) [unfolded get_equalizer_def]]
  show ?thesis by auto
qed

lemma get_config_assigned:
  "get_config s = (r, s') \<Longrightarrow> get_channel s = (Returns a, s1) \<Longrightarrow>
     ch s' = a \<and>
     (a \<noteq> 1 \<longrightarrow> eq_status s' = PStr ''na'' \<and> gain_status s' = PStr ''na'') \<and>
     (\<forall>e t. a = 1 \<and> get_equalizer (s1\<lparr>ch := 1\<rparr>) = (Returns e, t) \<longrightarrow>
        eq_status s' = PStr e \<and>
        (\<forall>g u. get_gain (t\<lparr>eq_status := PStr e\<rparr>) = (Returns g, u) \<longrightarrow>
           gain_status s' = PStr g))"
  unfolding get_config_def
  apply (elim andthenE)
                      apply (simp_all split: if_splits)
                      apply (auto simp: Let_def dest!: eq_gain_partial query_fields get_srate_fields)
  done

text \<open>
  C7, as the code has it. \<^verbatim>\<open>get_config\<close> asks the device for the channel, for the
  equalizer and gain states when the channel is 1 (they are set to \<^verbatim>\<open>"na"\<close> without a
  query otherwise), for the sample rate, the identity and the version, each query in the
  state the one before left, and assigns \<open>ch\<close>, \<open>eq_status\<close>, \<open>gain_status\<close> and
  \<open>srate\<close> as the answers come in; the dictionary is built and stored last.

  When the call returns: the six entries of the dictionary are the answers of these
  queries; \<open>config_info\<close> is the dictionary returned and agrees with the attributes; the
  state is the one the version query left, with the dictionary stored; and what went to
  the device is exactly these queries, in this order.

  When a query fails or blocks, \<open>config_info\<close> is the dictionary from before the call.
  The attributes are not put back: whatever the outcome, once the channel query has
  returned, \<open>ch\<close> holds its answer; for a channel other than 1 the equalizer and gain
  states are \<^verbatim>\<open>"na"\<close>; for channel 1, \<open>eq_status\<close> holds the equalizer answer once
  that query has returned, and \<open>gain_status\<close> the gain answer once that one has.
\<close>

theorem get_config_replaces_dictionary_whole:
  assumes "get_config s = (r, s')"
  shows
  "(case r of
      Returns c \<Rightarrow>
        config_info s' = c \<and>
        (\<exists>name version.
           c = [(''name'', PStr name), (''version'', PStr version),
                (''channel'', PInt (ch s')), (''srate'', PInt (srate s')),
                (''gain'', gain_status s'), (''equalizer'', eq_status s')]) \<and>
        (ch s' = 1 \<or>
         ch s' = 2 \<and> gain_status s' = PStr ''na'' \<and> eq_status s' = PStr ''na'') \<and>
        (\<exists>a s1 e g s2 n s3 name s4 version s5.
           get_channel s = (Returns a, s1) \<and>
           (if a = 1
            then \<exists>t u. get_equalizer (s1\<lparr>ch := a\<rparr>) = (Returns e, t) \<and>
                       get_gain (t\<lparr>eq_status := PStr e\<rparr>) = (Returns g, u) \<and>
                       s2 = u\<lparr>gain_status := PStr g\<rparr>
            else e = ''na'' \<and> g = ''na'' \<and>
                 s2 = s1\<lparr>ch := a, eq_status := PStr ''na'', gain_status := PStr ''na''\<rparr>) \<and>
           get_srate s2 = (Returns n, s3) \<and>
           query ''*idn?'' (s3\<lparr>srate := n\<rparr>) = (Returns name, s4) \<and>
           query ''SYSTem:VERSion?'' s4 = (Returns version, s5) \<and>
           c = [(''name'', PStr name), (''version'', PStr version),
                (''channel'', PInt a), (''srate'', PInt n),
                (''gain'', PStr g), (''equalizer'', PStr e)] \<and>
           s' = s5\<lparr>config_info := c\<rparr>) \<and>
        sent s' = sent s @
          [''INPut1:STATe?'' @ crlf] @
          (if ch s' = 1
           then [''INPut1:EQUalizer:STATe?'' @ crlf, ''INPut1:GAIN:STATe?'' @ crlf]
           else []) @
          [''CONFigure:ACQuire:SRATe?'' @ crlf, ''*idn?'' @ crlf, ''SYSTem:VERSion?'' @ crlf]
    | Raises err \<Rightarrow> config_info s' = config_info s
    | Blocks \<Rightarrow> config_info s' = config_info s) \<and>
   (get_channel s = (Returns a, s1) \<longrightarrow>
      ch s' = a \<and>
      (a \<noteq> 1 \<longrightarrow> eq_status s' = PStr ''na'' \<and> gain_status s' = PStr ''na'') \<and>
      (a = 1 \<and> get_equalizer (s1\<lparr>ch := 1\<rparr>) = (Returns e, t) \<longrightarrow>
         eq_status s' = PStr e \<and>
         (get_gain (t\<lparr>eq_status := PStr e\<rparr>) = (Returns g, u) \<longrightarrow>
            gain_status s' = PStr g)))"
proof (rule conjI)
  show "case r of
      Returns c \<Rightarrow>
        config_info s' = c \<and>
        (\<exists>name version.
           c = [(''name'', PStr name), (''version'', PStr version),
                (''channel'', PInt (ch s')), (''srate'', PInt (srate s')),
                (''gain'', gain_status s'), (''equalizer'', eq_status s')]) \<and>
        (ch s' = 1 \<or>
         ch s' = 2 \<and> gain_status s' = PStr ''na'' \<and> eq_status s' = PStr ''na'') \<and>
        (\<exists>a s1 e g s2 n s3 name s4 version s5.
           get_channel s = (Returns a, s1) \<and>
           (if a = 1
            then \<exists>t u. get_equalizer (s1\<lparr>ch := a\<rparr>) = (Returns e, t) \<and>
                       get_gain (t\<lparr>eq_status := PStr e\<rparr>) = (Returns g, u) \<and>
                       s2 = u\<lparr>gain_status := PStr g\<rparr>
            else e = ''na'' \<and> g = ''na'' \<and>
                 s2 = s1\<lparr>ch := a, eq_status := PStr ''na'', gain_status := PStr ''na''\<rparr>) \<and>
           get_srate s2 = (Returns n, s3) \<and>
           query ''*idn?'' (s3\<lparr>srate := n\<rparr>) = (Returns name, s4) \<and>
           query ''SYSTem:VERSion?'' s4 = (Returns version, s5) \<and>
           c = [(''name'', PStr name), (''version'', PStr version),
                (''channel'', PInt a), (''srate'', PInt n),
                (''gain'', PStr g), (''equalizer'', PStr e)] \<and>
           s' = s5\<lparr>config_info := c\<rparr>) \<and>
        sent s' = sent s @
          [''INPut1:STATe?'' @ crlf] @
          (if ch s' = 1
           then [''INPut1:EQUalizer:STATe?'' @ crlf, ''INPut1:GAIN:STATe?'' @ crlf]
           else []) @
          [''CONFigure:ACQuire:SRATe?'' @ crlf, ''*idn?'' @ crlf, ''SYSTem:VERSion?'' @ crlf]
    | Raises err \<Rightarrow> config_info s' = config_info s
    | Blocks \<Rightarrow> config_info s' = config_info s"
  proof (cases r)
    case (Returns c)
    have 1: "get_config s = (Returns c, s')"
      using assms Returns by simp
    from get_config_cache [OF 1] have old:
      "config_info s' = c \<and>
        (\<exists>name version.
           c = [(''name'', PStr name), (''version'', PStr version),
                (''channel'', PInt (ch s')), (''srate'', PInt (srate s')),
                (''gain'', gain_status s'), (''equalizer'', eq_status s')]) \<and>
        (ch s' = 1 \<or>
         ch s' = 2 \<and> gain_status s' = PStr ''na'' \<and> eq_status s' = PStr ''na'')"
      by simp
    from get_config_sent [OF 1] have tx: "sent s' = sent s @
          [''INPut1:STATe?'' @ crlf] @
          (if ch s' = 1
           then [''INPut1:EQUalizer:STATe?'' @ crlf, ''INPut1:GAIN:STATe?'' @ crlf]
           else []) @
          [''CONFigure:ACQuire:SRATe?'' @ crlf, ''*idn?'' @ crlf, ''SYSTem:VERSion?'' @ crlf]"
      by (rule conjunct1)
    show ?thesis
      unfolding Returns outcome.case
      apply (rule conjI, rule old [THEN conjunct1])
      apply (rule conjI, rule old [THEN conjunct2, THEN conjunct1])
      apply (rule conjI, rule old [THEN conjunct2, THEN conjunct2])
      apply (rule conjI, rule get_config_answers [OF 1])
      apply (rule tx)
      done
  next
    case (Raises err)
    with get_config_cache [OF assms] show ?thesis by simp
  next
    case Blocks
    with get_config_cache [OF assms] show ?thesis by simp
  qed
next
  show "get_channel s = (Returns a, s1) \<longrightarrow>
      ch s' = a \<and>
      (a \<noteq> 1 \<longrightarrow> eq_status s' = PStr ''na'' \<and> gain_status s' = PStr ''na'') \<and>
      (a = 1 \<and> get_equalizer (s1\<lparr>ch := 1\<rparr>) = (Returns e, t) \<longrightarrow>
         eq_status s' = PStr e \<and>
         (get_gain (t\<lparr>eq_status := PStr e\<rparr>) = (Returns g, u) \<longrightarrow>
            gain_status s' = PStr g))"
  proof
    assume gc: "get_channel s = (Returns a, s1)"
    from get_config_assigned [OF assms gc] show "ch s' = a \<and>
      (a \<noteq> 1 \<longrightarrow> eq_status s' = PStr ''na'' \<and> gain_status s' = PStr ''na'') \<and>
      (a = 1 \<and> get_equalizer (s1\<lparr>ch := 1\<rparr>) = (Returns e, t) \<longrightarrow>
         eq_status s' = PStr e \<and>
         (get_gain (t\<lparr>eq_status := PStr e\<rparr>) = (Returns g, u) \<longrightarrow>
            gain_status s' = PStr g))"
      by blast
  qed
qed

theorem get_config_replaces_dictionary_whole_witness:
  "fst (get_config (udp_client config_replies [])) =
     Returns [(''name'', PStr ''NeXOS A2''), (''version'', PStr ''1.0''),
              (''channel'', PInt 1), (''srate'', PInt 100000),
              (''gain'', PStr ''1''), (''equalizer'', PStr ''0'')] \<and>
   config_info (snd (get_config (udp_client config_replies []))) =
     [(''name'', PStr ''NeXOS A2''), (''version'', PStr ''1.0''),
      (''channel'', PInt 1), (''srate'', PInt 100000),
      (''gain'', PStr ''1''), (''equalizer'', PStr ''0'')] \<and>
   sent (snd (get_config (udp_client config_replies []))) =
     [''INPut1:STATe?'' @ crlf, ''INPut1:EQUalizer:STATe?'' @ crlf,
      ''INPut1:GAIN:STATe?'' @ crlf, ''CONFigure:ACQuire:SRATe?'' @ crlf,
      ''*idn?'' @ crlf, ''SYSTem:VERSion?'' @ crlf] \<and>
   fst (get_config (udp_client (take 3 config_replies) [])) = Raises SocketTimeout \<and>
   config_info (snd (get_config (udp_client (take 3 config_replies) []))) =
     config_info (udp_client (take 3 config_replies) []) \<and>
   fst (get_channel (udp_client (take 3 config_replies) [])) = Returns 1 \<and>
   ch (udp_client (take 3 config_replies) []) = - 1 \<and>
   ch (snd (get_config (udp_client (take 3 config_replies) []))) = 1 \<and>
   eq_status (snd (get_config (udp_client (take 3 config_replies) []))) = PStr ''0'' \<and>
   gain_status (snd (get_config (udp_client (take 3 config_replies) []))) = PStr ''1'' \<and>
   fst (get_config (udp_client [''0'' @ crlf] [])) = Raises SocketTimeout \<and>
   fst (get_channel (udp_client [''0'' @ crlf] [])) = Returns 2 \<and>
   ch (snd (get_config (udp_client [''0'' @ crlf] []))) = 2 \<and>
   eq_status (snd (get_config (udp_client [''0'' @ crlf] []))) = PStr ''na'' \<and>
   gain_status (snd (get_config (udp_client [''0'' @ crlf] []))) = PStr ''na''"
proof -
  let ?s = "udp_client config_replies []"
  let ?t = "udp_client (take 3 config_replies) []"
  let ?v = "udp_client [''0'' @ crlf] []"
  let ?t1 = "snd (get_channel ?t)"
  let ?t2 = "snd (get_equalizer (?t1\<lparr>ch := 1\<rparr>))"
  have a: "fst (get_config ?s) =
     Returns [(''name'', PStr ''NeXOS A2''), (''version'', PStr ''1.0''),
              (''channel'', PInt 1), (''srate'', PInt 100000),
              (''gain'', PStr ''1''), (''equalizer'', PStr ''0'')]"
    by code_simp
  have b: "fst (get_config ?t) = Raises SocketTimeout"
    by code_simp
  have gc: "fst (get_channel ?t) = Returns 1"
    by code_simp
  have ge: "fst (get_equalizer (?t1\<lparr>ch := 1\<rparr>)) = Returns ''0''"
    by code_simp
  have gg: "fst (get_gain (?t2\<lparr>eq_status := PStr ''0''\<rparr>)) = Returns ''1''"
    by code_simp
  have before: "ch ?t = - 1"
    by code_simp
  note ok = get_config_replaces_dictionary_whole [OF fst_collapse [OF a], THEN conjunct1]
  have c: "config_info (snd (get_config ?s)) =
     [(''name'', PStr ''NeXOS A2''), (''version'', PStr ''1.0''),
      (''channel'', PInt 1), (''srate'', PInt 100000),
      (''gain'', PStr ''1''), (''equalizer'', PStr ''0'')]"
    using ok by simp
  have ch1: "ch (snd (get_config ?s)) = 1"
    using ok by simp
  have tx: "sent (snd (get_config ?s)) =
     [''INPut1:STATe?'' @ crlf, ''INPut1:EQUalizer:STATe?'' @ crlf,
      ''INPut1:GAIN:STATe?'' @ crlf, ''CONFigure:ACQuire:SRATe?'' @ crlf,
      ''*idn?'' @ crlf, ''SYSTem:VERSion?'' @ crlf]"
    using ok by (simp add: ch1 sent_udp_client)
  have d: "config_info (snd (get_config ?t)) = config_info ?t"
    using get_config_replaces_dictionary_whole [OF fst_collapse [OF b], THEN conjunct1]
    by simp
  note part = get_config_replaces_dictionary_whole
    [OF fst_collapse [OF b], THEN conjunct2, THEN mp, OF fst_collapse [OF gc]]
  have e: "ch (snd (get_config ?t)) = 1"
    by (rule part [THEN conjunct1])
  note part2 = part [THEN conjunct2, THEN conjunct2, THEN mp,
    OF conjI [OF refl fst_collapse [OF ge]]]
  have f: "eq_status (snd (get_config ?t)) = PStr ''0''"
    by (rule part2 [THEN conjunct1])
  have g: "gain_status (snd (get_config ?t)) = PStr ''1''"
    by (rule part2 [THEN conjunct2, THEN mp, OF fst_collapse [OF gg]])
  have bv: "fst (get_config ?v) = Raises SocketTimeout"
    by code_simp
  have gcv: "fst (get_channel ?v) = Returns 2"
    by code_simp
  note partv = get_config_replaces_dictionary_whole
    [OF fst_collapse [OF bv], THEN conjunct2, THEN mp, OF fst_collapse [OF gcv]]
  have ev: "ch (snd (get_config ?v)) = 2"
    by (rule partv [THEN conjunct1])
  have ne: "(2::int) \<noteq> 1"
    by simp
  note na = partv [THEN conjunct2, THEN conjunct1, THEN mp, OF ne]
  show ?thesis
    by (rule conjI [OF a conjI [OF c conjI [OF tx conjI [OF b conjI [OF d
          conjI [OF gc conjI [OF before conjI [OF e conjI [OF f conjI [OF g
            conjI [OF bv conjI [OF gcv conjI [OF ev na]]]]]]]]]]]]])
qed

text \<open>
  The attributes are not restored when the refresh fails. With a device that answers
  the channel query and then falls silent, \<^verbatim>\<open>get_config\<close> raises the timeout and
  leaves \<open>ch\<close> changed from \<open>-1\<close> to 1; with one that falls silent after the gain
  query, \<open>eq_status\<close> and \<open>gain_status\<close> hold the new answers.
\<close>

theorem get_config_partial_update:
  "fst (get_config (udp_client [''1'' @ crlf] [])) = Raises SocketTimeout \<and>
   ch (udp_client [''1'' @ crlf] []) = - 1 \<and>
   ch (snd (get_config (udp_client [''1'' @ crlf] []))) = 1 \<and>
   fst (get_config (udp_client (take 3 config_replies) [])) = Raises SocketTimeout \<and>
   eq_status (udp_client (take 3 config_replies) []) = PInt (- 1) \<and>
   eq_status (snd (get_config (udp_client (take 3 config_replies) []))) = PStr ''0'' \<and>
   gain_status (snd (get_config (udp_client (take 3 config_replies) []))) = PStr ''1''"
  by code_simp




section \<open>Bounded capture\<close>

lemma receivePacket_Returns:
  assumes "stream_socket s = Some (Bound p)" and "0 \<le> packetSize s"
    and "stream_rx (world s) = d # ds"
    and "2 \<le> length (take (nat (packetSize s)) d)"
  shows "\<exists>s'. receivePacket s = (Returns (drop 12 (take (nat (packetSize s)) d)), s') \<and>
           stream_socket s' = Some (Bound p) \<and> packetSize s' = packetSize s \<and>
           stream_rx (world s') = ds \<and> wav_files (world s') = wav_files (world s)"
proof -
  from assms(4) obtain b0 b1 bs where t: "take (nat (packetSize s)) d = b0 # b1 # bs"
    by (cases "take (nat (packetSize s)) d" rule: list.exhaust)
      (auto simp: Suc_le_eq length_Suc_conv neq_Nil_conv)
  show ?thesis
    using assms(1-3) t by (simp add: receivePacket_def Let_def)
qed

lemma wav_update_fields:
  "stream_socket (wav_update fn f s) = stream_socket s"
  "packetSize (wav_update fn f s) = packetSize s"
  "stream_rx (world (wav_update fn f s)) = stream_rx (world s)"
  "newSeqNum (wav_update fn f s) = newSeqNum s"
  "oldSeqNum (wav_update fn f s) = oldSeqNum s"
  by (simp_all add: wav_update_def split: option.splits)

lemma wav_update_file:
  "wav_files (world s) fn = Some obj \<Longrightarrow>
   wav_files (world (wav_update fn f s)) fn = Some (f obj)"
  by (simp add: wav_update_def)

lemma log_event_fields:
  "stream_socket (snd (log_event e s)) = stream_socket s"
  "packetSize (snd (log_event e s)) = packetSize s"
  "stream_rx (world (snd (log_event e s))) = stream_rx (world s)"
  "wav_files (world (snd (log_event e s))) = wav_files (world s)"
  by (simp_all add: log_event_def)

lemma write_wav_loop_total:
  assumes "stream_socket s = Some (Bound p)" and "0 \<le> packetSize s"
    and "wav_files (world s) fn = Some obj"
    and "stream_rx (world s) = ds @ rest"
    and "length ds = nat (n - c)"
    and "\<forall>d\<in>set ds. 2 \<le> length (take (nat (packetSize s)) d)"
  shows "\<exists>s'. write_wav_loop fn n c s = (Returns (), s') \<and>
           stream_socket s' = Some (Bound p) \<and>
           wav_files (world s') fn =
             Some (obj\<lparr>frames := frames obj @
                      map (\<lambda>d. drop 12 (take (nat (packetSize s)) d)) ds\<rparr>) \<and>
           stream_rx (world s') = rest"
  using assms
proof (induction ds arbitrary: s c obj)
  case Nil
  then have "\<not> c < n" by simp
  with Nil show ?case
    by (subst write_wav_loop.simps) simp
next
  case (Cons d ds)
  from Cons.prems(5) have lt: "c < n" and len: "length ds = nat (n - (c + 1))"
    by auto
  from Cons.prems(4) have rx: "stream_rx (world s) = d # (ds @ rest)"
    by simp
  from Cons.prems(6) have d2: "2 \<le> length (take (nat (packetSize s)) d)"
    by simp
  let ?payload = "drop 12 (take (nat (packetSize s)) d)"
  from receivePacket_Returns [OF Cons.prems(1) Cons.prems(2) rx d2]
  obtain s1 where r: "receivePacket s = (Returns ?payload, s1)"
    and k1: "stream_socket s1 = Some (Bound p)" and z1: "packetSize s1 = packetSize s"
    and x1: "stream_rx (world s1) = ds @ rest"
    and w1: "wav_files (world s1) = wav_files (world s)"
    by blast
  let ?s2 = "wav_update fn (\<lambda>obj. obj\<lparr>frames := frames obj @ [?payload]\<rparr>) s1"
  let ?s3 = "if newSeqNum ?s2 - oldSeqNum ?s2 > 1
             then snd (log_event (LostMsg (newSeqNum ?s2 - oldSeqNum ?s2)) ?s2) else ?s2"
  have step: "write_wav_loop fn n c s = write_wav_loop fn n (c + 1) ?s3"
    using lt r by (subst write_wav_loop.simps) (simp add: Let_def)
  have f2: "wav_files (world ?s2) fn = Some (obj\<lparr>frames := frames obj @ [?payload]\<rparr>)"
    using Cons.prems(3) w1 by (simp add: wav_update_file)
  have k3: "stream_socket ?s3 = Some (Bound p)"
    using k1 by (simp add: wav_update_fields log_event_fields)
  have z3: "packetSize ?s3 = packetSize s"
    using z1 by (simp add: wav_update_fields log_event_fields)
  have x3: "stream_rx (world ?s3) = ds @ rest"
    using x1 by (simp add: wav_update_fields log_event_fields)
  have f3: "wav_files (world ?s3) fn = Some (obj\<lparr>frames := frames obj @ [?payload]\<rparr>)"
    using f2 by (simp add: log_event_fields)
  have p3: "0 \<le> packetSize ?s3"
    using Cons.prems(2) z3 by simp
  have a3: "\<forall>d\<in>set ds. 2 \<le> length (take (nat (packetSize ?s3)) d)"
    using Cons.prems(6) z3 by simp
  from Cons.IH [OF k3 p3 f3 x3 len a3]
  obtain s' where "write_wav_loop fn n (c + 1) ?s3 = (Returns (), s')"
    and "stream_socket s' = Some (Bound p)"
    and "wav_files (world s') fn =
           Some (obj\<lparr>frames := frames obj @ [?payload]\<rparr>
                  \<lparr>frames := frames (obj\<lparr>frames := frames obj @ [?payload]\<rparr>) @
                      map (\<lambda>d. drop 12 (take (nat (packetSize ?s3)) d)) ds\<rparr>)"
    and "stream_rx (world s') = rest"
    by blast
  then show ?case
    unfolding step z3 by simp
qed


lemma returns_with_seq:
  assumes "returns_with m s R"
    and "\<And>x s1. R x s1 \<Longrightarrow> returns_with (f x) s1 Q"
  shows "returns_with (andthen m f) s Q"
proof -
  from assms(1) obtain x s1 where m: "m s = (Returns x, s1)" and r: "R x s1"
    unfolding returns_with_def by (auto split: prod.splits outcome.splits)
  from assms(2) [OF r] show ?thesis
    unfolding returns_with_def andthen_def by (simp add: m)
qed

lemma returns_withD:
  "returns_with m s Q \<Longrightarrow> \<exists>x s'. m s = (Returns x, s') \<and> Q x s'"
  unfolding returns_with_def
  by (auto split: prod.splits outcome.splits)

lemma write_wav_loop_returns:
  assumes "\<exists>p. stream_socket s = Some (Bound p)" and "0 \<le> packetSize s"
    and "wav_files (world s) fn = Some obj"
    and "stream_rx (world s) = ds @ rest"
    and "length ds = nat (n - c)"
    and "\<forall>d\<in>set ds. 2 \<le> length (take (nat (packetSize s)) d)"
  shows "returns_with (write_wav_loop fn n c) s
           (\<lambda>_ s'. (\<exists>p. stream_socket s' = Some (Bound p)) \<and>
              wav_files (world s') fn =
                Some (obj\<lparr>frames := frames obj @
                        map (\<lambda>d. drop 12 (take (nat (packetSize s)) d)) ds\<rparr>) \<and>
              stream_rx (world s') = rest)"
proof -
  from assms(1) obtain p where p: "stream_socket s = Some (Bound p)"
    by blast
  from write_wav_loop_total [OF p assms(2-6)] show ?thesis
    unfolding returns_with_def by auto
qed

text \<open>A duration below zero gives a packet count below zero (the quotient is cut
  towards zero, not rounded down), and the loop then writes nothing.\<close>

lemma int_truediv_negative: "int_truediv (- 1 * 100000) 512 = - 195"
  by (simp add: int_truediv_def)

lemma write_wav_loop_nothing:
  "npackets \<le> c \<Longrightarrow> write_wav_loop fn npackets c s = (Returns (), s)"
  by (subst write_wav_loop.simps) simp

lemma int_truediv_nonneg:
  "0 \<le> a \<Longrightarrow> 0 < b \<Longrightarrow> int_truediv a b = a div b"
  by (simp add: int_truediv_def)

text \<open>
  The packet count of a bounded capture \<^verbatim>\<open>write_wav(seconds, prefix)\<close> called in
  state \<open>s0\<close>. Let \<open>s\<close> be the state once the configuration is there: \<open>s0\<close> itself
  when a configuration is cached, the state \<^verbatim>\<open>get_config\<close> returns in otherwise. With
  the attribute \<open>srate\<close> above 0 in \<open>s\<close>, 512 samples per packet, a whole number of
  seconds that is not negative (with \<open>seconds * srate\<close> below \<open>2 ^ 53\<close>, where the float
  quotient of the source is exact), the stream socket open or free to be opened, and a
  stream that delivers at least \<open>seconds * srate div 512\<close> datagrams of two bytes or
  more: the call returns 1, and the WAV file it closed holds exactly the payloads of the
  first \<open>seconds * srate div 512\<close> datagrams, in order; the datagrams after them are
  still to be read. The rate is the attribute, which only \<^verbatim>\<open>get_config\<close> assigns.
\<close>

lemma write_wav_count:
  assumes "config_info s0 \<noteq> [] \<and> s = s0 \<or>
           config_info s0 = [] \<and> (\<exists>c. get_config s0 = (Returns c, s))"
    and "if open_stream_port s then \<exists>p. stream_socket s = Some (Bound p)
         else 0 \<le> streaming_port s \<and> streaming_port s \<le> 65535 \<and>
              streaming_port s \<notin> set (filter (\<lambda>p. p \<notin> set (held_port (stream_socket s)))
                                        (ports_in_use (world s)))"
    and "0 \<le> packetSize s" and "samplesPerPacket s = 512" and "0 < srate s"
    and "0 \<le> seconds" and "seconds * srate s < 2 ^ 53"
    and "stream_rx (world s) = ds @ rest"
    and "int (length ds) = seconds * srate s div 512"
    and "\<forall>d\<in>set ds. 2 \<le> length (take (nat (packetSize s)) d)"
  shows "\<exists>s'. write_wav seconds prefix close s0 = (Returns 1, s') \<and>
           wav_files (world s') (prefix @ ''_'' @ now_utc (world s) (clock_reads (world s)) @ ''.wav'') =
             Some \<lparr>framerate = srate s,
                   frames = map (\<lambda>d. drop 12 (take (nat (packetSize s)) d)) ds,
                   finalized = True\<rparr> \<and>
           int (length (map (\<lambda>d. drop 12 (take (nat (packetSize s)) d)) ds)) =
             seconds * srate s div 512 \<and>
           stream_rx (world s') = rest"
proof -
  define fname where "fname = prefix @ ''_'' @ now_utc (world s) (clock_reads (world s)) @ ''.wav''"
  define payloads where "payloads = map (\<lambda>d. drop 12 (take (nat (packetSize s)) d)) ds"
  define I where "I = (\<lambda>t::NeXOS. (\<exists>p. stream_socket t = Some (Bound p)) \<and>
      packetSize t = packetSize s \<and> samplesPerPacket t = 512 \<and> srate t = srate s \<and>
      stream_rx (world t) = ds @ rest \<and> now_utc (world t) = now_utc (world s))"
  have nn: "0 \<le> seconds * srate s"
    using assms(5,6) by simp
  have len: "length ds = nat (seconds * srate s div 512 - 0)"
    using assms(9) by simp
  have cfg: "s\<lparr>config_info := c\<rparr> = s" if "get_config s0 = (Returns c, s)" for c
  proof -
    from get_config_cache [OF that] have "config_info s = c"
      by simp
    then show ?thesis
      by simp
  qed
  have "returns_with (write_wav seconds prefix close) s0
          (\<lambda>x s'. x = 1 \<and>
             wav_files (world s') fname =
               Some \<lparr>framerate = srate s, frames = payloads, finalized = True\<rparr> \<and>
             stream_rx (world s') = rest)"
    unfolding write_wav_def
    apply (rule returns_with_seq [where R = "\<lambda>_ t. t = s"])
    subgoal using assms(1)
      by (elim disjE conjE exE) (simp_all add: returns_with_def andthen_def cfg)
    apply (rule returns_with_seq
        [where R = "\<lambda>_ t. I t \<and> clock_reads (world t) = clock_reads (world s)"])
    subgoal using assms(2,3,4,8)
      by (cases "open_stream_port s")
        (auto simp: returns_with_def I_def open_stream_def Let_def)
    apply (rule returns_with_seq
        [where R = "\<lambda>n t. n = seconds * srate s div 512 \<and> I t \<and>
                      clock_reads (world t) = clock_reads (world s)"])
    subgoal using nn
      by (simp add: returns_with_def I_def int_truediv_nonneg)
    apply (rule returns_with_seq
        [where R = "\<lambda>f t. f = fname \<and> I t"])
    subgoal
      by (simp add: returns_with_def I_def fname_def)
    apply (rule returns_with_seq
        [where R = "\<lambda>_ t. I t \<and> wav_files (world t) fname =
                      Some \<lparr>framerate = srate s, frames = [], finalized = False\<rparr>"])
    subgoal using assms(5)
      by (simp add: returns_with_def I_def Let_def wav_open_def wav_update_def)
    apply (rule returns_with_seq
        [where R = "\<lambda>_ t. (\<exists>p. stream_socket t = Some (Bound p)) \<and>
                      wav_files (world t) fname =
                        Some \<lparr>framerate = srate s, frames = payloads, finalized = False\<rparr> \<and>
                      stream_rx (world t) = rest"])
    subgoal for x1 s1 x2 s2 n s3 f s4 x5 s5
      using write_wav_loop_returns [of s5 fname
          "\<lparr>framerate = srate s, frames = [], finalized = False\<rparr>" ds rest
          "seconds * srate s div 512" 0] assms(3,10) len
      by (simp add: I_def payloads_def)
    apply (rule returns_with_seq
        [where R = "\<lambda>_ t. (\<exists>p. stream_socket t = Some (Bound p)) \<and>
                      wav_files (world t) fname =
                        Some \<lparr>framerate = srate s, frames = payloads, finalized = True\<rparr> \<and>
                      stream_rx (world t) = rest"])
    subgoal
      by (auto simp: returns_with_def wav_update_def)
    apply (rule returns_with_seq
        [where R = "\<lambda>_ t. wav_files (world t) fname =
                        Some \<lparr>framerate = srate s, frames = payloads, finalized = True\<rparr> \<and>
                      stream_rx (world t) = rest"])
    subgoal
      by (auto simp: returns_with_def close_stream_def)
    apply (rule returns_with_seq
        [where R = "\<lambda>_ t. wav_files (world t) fname =
                        Some \<lparr>framerate = srate s, frames = payloads, finalized = True\<rparr> \<and>
                      stream_rx (world t) = rest"])
    subgoal
      by (auto simp: returns_with_def log_event_def)
    apply (simp add: returns_with_def ret_def)
    done
  from returns_withD [OF this] assms(9) show ?thesis
    unfolding fname_def payloads_def by auto
qed


text \<open>Ten seconds from a client whose cached rate of 100000 Hz is the rate of the
  device: 1953 payloads.\<close>

lemma write_wav_count_example:
  "config_info (capture_client (stream_of 1953 @ [packet 1953 []])) \<noteq> [] \<and>
   srate (capture_client (stream_of 1953 @ [packet 1953 []])) = 100000 \<and>
   samplesPerPacket (capture_client (stream_of 1953 @ [packet 1953 []])) = 512 \<and>
   length (stream_of 1953) = 1953 \<and>
   (\<exists>s'. write_wav 10 ''100k_ch1'' True (capture_client (stream_of 1953 @ [packet 1953 []])) =
            (Returns 1, s') \<and>
         (\<exists>f. wav_files (world s') ''100k_ch1_20231120_101500z.wav'' = Some f \<and>
              length (frames f) = 1953 \<and> framerate f = 100000 \<and> finalized f) \<and>
         stream_rx (world s') = [packet 1953 []])"
proof -
  let ?c = "capture_client (stream_of 1953 @ [packet 1953 []])"
  have h0: "config_info ?c \<noteq> []"
    by (simp add: capture_client_def)
  have h1: "config_info ?c \<noteq> [] \<and> ?c = ?c \<or>
            config_info ?c = [] \<and> (\<exists>c. get_config ?c = (Returns c, ?c))"
    using h0 by simp
  have h2: "if open_stream_port ?c then \<exists>p. stream_socket ?c = Some (Bound p)
         else 0 \<le> streaming_port ?c \<and> streaming_port ?c \<le> 65535 \<and>
              streaming_port ?c \<notin> set (filter (\<lambda>p. p \<notin> set (held_port (stream_socket ?c)))
                                        (ports_in_use (world ?c)))"
    by (simp add: capture_client_def udp_client_def NeXOS_init_def lab_world_def)
  have h3: "0 \<le> packetSize ?c"
    by (simp add: capture_client_def udp_client_def NeXOS_init_def)
  have h4: "samplesPerPacket ?c = 512"
    by (simp add: capture_client_def udp_client_def NeXOS_init_def)
  have h5: "srate ?c = 100000"
    by (simp add: capture_client_def)
  have h5': "0 < srate ?c"
    by (simp add: h5)
  have h6: "(0::int) \<le> 10"
    by simp
  have h7: "10 * srate ?c < 2 ^ 53"
    by (simp add: h5)
  have h8: "stream_rx (world ?c) = stream_of 1953 @ [packet 1953 []]"
    by (simp add: capture_client_def udp_client_def NeXOS_init_def lab_world_def)
  have l: "length (stream_of 1953) = 1953"
    by (simp add: stream_of_def)
  have h9: "int (length (stream_of 1953)) = 10 * srate ?c div 512"
    by (simp add: l h5)
  have h10: "\<forall>d\<in>set (stream_of 1953). 2 \<le> length (take (nat (packetSize ?c)) d)"
    by (simp add: stream_of_def packet_def capture_client_def udp_client_def NeXOS_init_def)
  have n: "now_utc (world ?c) (clock_reads (world ?c)) = ''20231120_101500z''"
    by (simp add: capture_client_def udp_client_def NeXOS_init_def lab_world_def)
  from write_wav_count [OF h1 h2 h3 h4 h5' h6 h7 h8 h9 h10, of "''100k_ch1''" True]
  obtain s' where w: "write_wav 10 ''100k_ch1'' True ?c = (Returns 1, s')"
    and f: "wav_files (world s') (''100k_ch1'' @ ''_'' @ now_utc (world ?c) (clock_reads (world ?c)) @ ''.wav'') =
             Some \<lparr>framerate = srate ?c,
                   frames = map (\<lambda>d. drop 12 (take (nat (packetSize ?c)) d)) (stream_of 1953),
                   finalized = True\<rparr>"
    and x: "stream_rx (world s') = [packet 1953 []]"
    by blast
  from f have f': "wav_files (world s') ''100k_ch1_20231120_101500z.wav'' =
      Some \<lparr>framerate = 100000,
            frames = map (\<lambda>d. drop 12 (take (nat (packetSize ?c)) d)) (stream_of 1953),
            finalized = True\<rparr>"
    unfolding n h5 by simp
  have e: "\<exists>f. wav_files (world s') ''100k_ch1_20231120_101500z.wav'' = Some f \<and>
              length (frames f) = 1953 \<and> framerate f = 100000 \<and> finalized f"
    unfolding f' by (simp add: l)
  from w e x have "\<exists>s'. write_wav 10 ''100k_ch1'' True ?c = (Returns 1, s') \<and>
         (\<exists>f. wav_files (world s') ''100k_ch1_20231120_101500z.wav'' = Some f \<and>
              length (frames f) = 1953 \<and> framerate f = 100000 \<and> finalized f) \<and>
         stream_rx (world s') = [packet 1953 []]"
    by blast
  with h0 h5 h4 l show ?thesis by blast
qed

lemma retuned_client_calls:
  "fst (start_streaming (udp_client (streaming_replies @ [''200000'' @ crlf]) pk)) = Returns () \<and>
   fst (set_srate 200000 (snd (start_streaming
         (udp_client (streaming_replies @ [''200000'' @ crlf]) pk)))) = Returns ()"
  by code_simp

lemma retuned_client_fields:
  "srate (retuned_client pk) = 100000 \<and> config_info (retuned_client pk) \<noteq> [] \<and>
   stream_rx (world (retuned_client pk)) = pk \<and>
   open_stream_port (retuned_client pk) = False \<and> streaming_port (retuned_client pk) = 4002 \<and>
   ports_in_use (world (retuned_client pk)) = [] \<and> packetSize (retuned_client pk) = 1036 \<and>
   samplesPerPacket (retuned_client pk) = 512 \<and>
   now_utc (world (retuned_client pk)) (clock_reads (world (retuned_client pk))) =
     ''20231120_101500z''"
  by code_simp

lemma stream_of_payloads:
  "n \<le> m \<Longrightarrow> map (\<lambda>d. drop 12 (take 1036 d)) (take n (stream_of m)) = replicate n [0, 1]"
  by (simp add: stream_of_def take_map packet_def map_replicate_const min_def comp_def)

lemma length_stream_of: "length (stream_of n) = n"
  by (simp add: stream_of_def)

text \<open>
  C3. The packet count follows the attribute \<open>srate\<close>, and \<^verbatim>\<open>set_srate\<close> does not
  assign it. After \<^verbatim>\<open>start_streaming()\<close> with the device at 100 kHz and a
  \<^verbatim>\<open>set_srate(200000)\<close> that the device confirmed, the active sample rate is
  200000 Hz and \<open>srate\<close> is still 100000. \<^verbatim>\<open>write_wav(10, "200k_ch2")\<close> then returns
  1 with a closed file of 1953 payloads at a frame rate of 100000, where 10 seconds at the
  active rate are \<open>10 * 200000 div 512 = 3906\<close> payloads; of the 3906 datagrams the
  device sent, 1953 are left unread.
\<close>

theorem stale_srate_halves_capture:
  "fst (start_streaming
     (udp_client (streaming_replies @ [''200000'' @ crlf]) (stream_of 3906))) = Returns () \<and>
   fst (set_srate 200000 (snd (start_streaming
     (udp_client (streaming_replies @ [''200000'' @ crlf]) (stream_of 3906))))) = Returns () \<and>
   srate (retuned_client (stream_of 3906)) = 100000 \<and>
   fst (write_wav 10 ''200k_ch2'' True (retuned_client (stream_of 3906))) = Returns 1 \<and>
   wav_files (world (snd (write_wav 10 ''200k_ch2'' True (retuned_client (stream_of 3906)))))
       ''200k_ch2_20231120_101500z.wav'' =
     Some \<lparr>framerate = 100000, frames = replicate 1953 [0, 1], finalized = True\<rparr> \<and>
   stream_rx (world (snd (write_wav 10 ''200k_ch2'' True (retuned_client (stream_of 3906))))) =
     drop 1953 (stream_of 3906) \<and>
   length (drop 1953 (stream_of 3906)) = 1953 \<and>
   10 * 200000 div 512 = (3906::int)"
proof -
  let ?c = "retuned_client (stream_of 3906)"
  let ?ds = "take 1953 (stream_of 3906)"
  note f = retuned_client_fields [of "stream_of 3906"]
  have sr: "srate ?c = 100000"
    using f by blast
  have ps: "packetSize ?c = 1036"
    using f by blast
  have h1: "config_info ?c \<noteq> [] \<and> ?c = ?c \<or>
            config_info ?c = [] \<and> (\<exists>c. get_config ?c = (Returns c, ?c))"
    using f by blast
  have h2: "if open_stream_port ?c then \<exists>p. stream_socket ?c = Some (Bound p)
         else 0 \<le> streaming_port ?c \<and> streaming_port ?c \<le> 65535 \<and>
              streaming_port ?c \<notin> set (filter (\<lambda>p. p \<notin> set (held_port (stream_socket ?c)))
                                        (ports_in_use (world ?c)))"
    using f by simp
  have h3: "0 \<le> packetSize ?c"
    by (simp add: ps)
  have h4: "samplesPerPacket ?c = 512"
    using f by blast
  have h5: "0 < srate ?c"
    by (simp add: sr)
  have h6: "(0::int) \<le> 10"
    by simp
  have h7: "10 * srate ?c < 2 ^ 53"
    by (simp add: sr)
  have h8: "stream_rx (world ?c) = ?ds @ drop 1953 (stream_of 3906)"
    using f by simp
  have l: "length ?ds = 1953"
    by (simp add: length_stream_of)
  have h9: "int (length ?ds) = 10 * srate ?c div 512"
    unfolding l sr by simp
  have h10: "\<forall>d\<in>set ?ds. 2 \<le> length (take (nat (packetSize ?c)) d)"
  proof
    fix d assume "d \<in> set ?ds"
    then have "d \<in> set (stream_of 3906)"
      by (rule in_set_takeD)
    then show "2 \<le> length (take (nat (packetSize ?c)) d)"
      unfolding ps by (auto simp: stream_of_def packet_def)
  qed
  have n: "now_utc (world ?c) (clock_reads (world ?c)) = ''20231120_101500z''"
    using f by blast
  from write_wav_count [OF h1 h2 h3 h4 h5 h6 h7 h8 h9 h10, of "''200k_ch2''" True]
  obtain s' where w: "write_wav 10 ''200k_ch2'' True ?c = (Returns 1, s')"
    and g: "wav_files (world s') (''200k_ch2'' @ ''_'' @ now_utc (world ?c) (clock_reads (world ?c)) @ ''.wav'') =
             Some \<lparr>framerate = srate ?c,
                   frames = map (\<lambda>d. drop 12 (take (nat (packetSize ?c)) d)) ?ds,
                   finalized = True\<rparr>"
    and x: "stream_rx (world s') = drop 1953 (stream_of 3906)"
    by blast
  have p: "map (\<lambda>d. drop 12 (take (nat (packetSize ?c)) d)) ?ds = replicate 1953 [0, 1]"
    unfolding ps using stream_of_payloads [of 1953 3906] by simp
  from g have g': "wav_files (world s') ''200k_ch2_20231120_101500z.wav'' =
      Some \<lparr>framerate = 100000, frames = replicate 1953 [0, 1], finalized = True\<rparr>"
    unfolding n sr p by simp
  have W: "fst (write_wav 10 ''200k_ch2'' True ?c) = Returns 1 \<and>
     wav_files (world (snd (write_wav 10 ''200k_ch2'' True ?c)))
       ''200k_ch2_20231120_101500z.wav'' =
     Some \<lparr>framerate = 100000, frames = replicate 1953 [0, 1], finalized = True\<rparr> \<and>
     stream_rx (world (snd (write_wav 10 ''200k_ch2'' True ?c))) = drop 1953 (stream_of 3906)"
    using g' x by (simp add: w)
  have r: "length (drop 1953 (stream_of 3906)) = 1953"
    by (simp add: length_stream_of)
  have a: "10 * 200000 div 512 = (3906::int)"
    by simp
  from retuned_client_calls [of "stream_of 3906"] sr W r a show ?thesis
    by blast
qed

section \<open>Opening the transport and the stream\<close>

text \<open>
  C5, as the code has it. \<^verbatim>\<open>init_serial\<close> raises \<^verbatim>\<open>ValueError\<close> when a serial port
  is already configured, and leaves the client as it was. With no serial port
  configured it opens the device whatever the state of the UDP socket, and
  \<^verbatim>\<open>init_udp\<close>, on a client with no UDP socket whose device answers the identity
  query, makes the socket whatever the state of the serial port: the other handle stays,
  and the selected interface changes only when none was selected.
\<close>

theorem transport_init_guards:
  "(serial s \<noteq> None \<longrightarrow>
      init_serial device s = (Raises (ValueError ''Serial already configured!''), s)) \<and>
   (serial s = None \<and> device \<in> set (serial_devices (world s)) \<longrightarrow>
      init_serial device s =
        (Returns (),
         s\<lparr>serial := Some device,
           interface := (if interface s = None \<or> interface s = Some [] then Some ''serial''
                         else interface s)\<rparr>)) \<and>
   (socket t = None \<and> recv_udp_loop [] (udp_rx (world t)) = (Returns data, rest) \<longrightarrow>
      init_udp ip port t =
        (Returns (),
         t\<lparr>nexos_address := Some (ip, port), socket := Some Unbound,
           interface := (if interface t = None \<or> interface t = Some [] then Some ''udp''
                         else interface t),
           world := (world t)\<lparr>udp_rx := rest,
             trace := trace (world t) @ [UdpSendto (''*idn?'' @ [LF, CR]) (ip, port)]\<rparr>\<rparr>))"
  by (auto simp: init_serial_def init_udp_def Let_def andthen_def log_event_def recv_udp_def)

theorem transport_init_guards_witness:
  "serial (serial_client []) \<noteq> None \<and>
   init_serial ''/dev/ttyUSB0'' (serial_client []) =
     (Raises (ValueError ''Serial already configured!''), serial_client []) \<and>
   serial (udp_client [] []) = None \<and> socket (udp_client [] []) = Some Unbound \<and>
   fst (init_serial ''/dev/ttyUSB0'' (udp_client [] [])) = Returns () \<and>
   interface (snd (init_serial ''/dev/ttyUSB0'' (udp_client [] []))) = Some ''udp'' \<and>
   socket (serial_client [''NeXOS A2'' @ crlf]) = None \<and>
   fst (init_udp ''192.168.3.220'' 7777 (serial_client [''NeXOS A2'' @ crlf])) = Returns () \<and>
   interface (snd (init_udp ''192.168.3.220'' 7777 (serial_client [''NeXOS A2'' @ crlf]))) =
     Some ''serial''"
proof -
  let ?a = "serial_client []"
  let ?b = "udp_client [] []"
  let ?c = "serial_client [''NeXOS A2'' @ crlf]"
  have a1: "serial ?a \<noteq> None"
    by code_simp
  have b1: "serial ?b = None"
    by code_simp
  have b2: "socket ?b = Some Unbound"
    by code_simp
  have b3: "''/dev/ttyUSB0'' \<in> set (serial_devices (world ?b))"
    by code_simp
  have b4: "\<And>r p. interface (udp_client r p) = Some ''udp''"
    by (simp add: udp_client_def)
  have c1: "socket ?c = None"
    by code_simp
  have c2: "recv_udp_loop [] (udp_rx (world ?c)) = (Returns ''NeXOS A2'', [])"
    by code_simp
  have c3: "\<And>r. interface (serial_client r) = Some ''serial''"
    by (simp add: serial_client_def init_serial_def NeXOS_init_def lab_world_def)
  note r1 = transport_init_guards [of ?a "''/dev/ttyUSB0''", THEN conjunct1, THEN mp, OF a1]
  note r2 = transport_init_guards [of ?b "''/dev/ttyUSB0''", THEN conjunct2, THEN conjunct1,
      THEN mp, OF conjI [OF b1 b3]]
  note r3 = transport_init_guards [of _ _ ?c "''NeXOS A2''" "[]" "''192.168.3.220''" 7777,
      THEN conjunct2, THEN conjunct2, THEN mp, OF conjI [OF c1 c2]]
  have r2a: "fst (init_serial ''/dev/ttyUSB0'' ?b) = Returns ()"
    unfolding r2 by simp
  have r2b: "interface (snd (init_serial ''/dev/ttyUSB0'' ?b)) = Some ''udp''"
    unfolding r2 by (simp add: b4)
  have r3a: "fst (init_udp ''192.168.3.220'' 7777 ?c) = Returns ()"
    unfolding r3 by simp
  have r3b: "interface (snd (init_udp ''192.168.3.220'' 7777 ?c)) = Some ''serial''"
    unfolding r3 by (simp add: c3)
  show ?thesis
    by (rule conjI [OF a1 conjI [OF r1 conjI [OF b1 conjI [OF b2 conjI [OF r2a
          conjI [OF r2b conjI [OF c1 conjI [OF r3a r3b]]]]]]]])
qed

text \<open>A second medium is accepted next to the first: \<^verbatim>\<open>init_serial\<close> on a client
  connected over UDP, and \<^verbatim>\<open>init_udp\<close> on a client with an open serial port, both
  return, and both handles are there afterwards.\<close>

theorem second_medium_is_accepted:
  "socket (udp_client [] []) = Some Unbound \<and>
   fst (init_serial ''/dev/ttyUSB0'' (udp_client [] [])) = Returns () \<and>
   serial (snd (init_serial ''/dev/ttyUSB0'' (udp_client [] []))) = Some ''/dev/ttyUSB0'' \<and>
   socket (snd (init_serial ''/dev/ttyUSB0'' (udp_client [] []))) = Some Unbound \<and>
   serial (serial_client [''NeXOS A2'' @ crlf]) = Some ''/dev/ttyUSB0'' \<and>
   fst (init_udp ''192.168.3.220'' 7777 (serial_client [''NeXOS A2'' @ crlf])) = Returns () \<and>
   serial (snd (init_udp ''192.168.3.220'' 7777 (serial_client [''NeXOS A2'' @ crlf]))) =
     Some ''/dev/ttyUSB0'' \<and>
   socket (snd (init_udp ''192.168.3.220'' 7777 (serial_client [''NeXOS A2'' @ crlf]))) =
     Some Unbound"
  by code_simp

lemma keeps_refl: "keeps_open_stream s s"
  by (simp add: keeps_open_stream_def)

lemma keeps_trans:
  "keeps_open_stream a b \<Longrightarrow> keeps_open_stream b c \<Longrightarrow> keeps_open_stream a c"
  by (simp add: keeps_open_stream_def)

lemma only_world_keeps: "only_world s s' \<Longrightarrow> keeps_open_stream s s'"
  by (drule only_world_fields) (simp add: keeps_open_stream_def)

lemma andthen_keeps:
  "andthen m f s = (r, s') \<Longrightarrow>
   (\<And>r1 s1. m s = (r1, s1) \<Longrightarrow> keeps_open_stream s s1) \<Longrightarrow>
   (\<And>x s1 r2 s2. f x s1 = (r2, s2) \<Longrightarrow> keeps_open_stream s1 s2) \<Longrightarrow>
   keeps_open_stream s s'"
  unfolding andthen_def
  by (auto split: prod.splits outcome.splits intro: keeps_trans)

lemma query_keeps: "query c s = (r, s') \<Longrightarrow> keeps_open_stream s s'"
  by (rule only_world_keeps [OF query_frame])

lemma get_channel_keeps: "get_channel s = (r, s') \<Longrightarrow> keeps_open_stream s s'"
  by (rule only_world_keeps [OF get_channel_frame])

lemma get_srate_keeps: "get_srate s = (r, s') \<Longrightarrow> keeps_open_stream s s'"
  by (rule only_world_keeps [OF get_srate_frame])

lemma assign_keeps:
  "(Returns x, s\<lparr>ch := a\<rparr>) = (r, s') \<Longrightarrow> keeps_open_stream s s'"
  "(Returns x, s\<lparr>srate := b\<rparr>) = (r, s') \<Longrightarrow> keeps_open_stream s s'"
  "(Returns x, s\<lparr>eq_status := e\<rparr>) = (r, s') \<Longrightarrow> keeps_open_stream s s'"
  "(Returns x, s\<lparr>gain_status := g\<rparr>) = (r, s') \<Longrightarrow> keeps_open_stream s s'"
  "(Returns x, s\<lparr>config_info := c\<rparr>) = (r, s') \<Longrightarrow> keeps_open_stream s s'"
  "(Returns x, s\<lparr>eq_status := e, gain_status := g\<rparr>) = (r, s') \<Longrightarrow> keeps_open_stream s s'"
  by (auto simp: keeps_open_stream_def)

lemma get_config_keeps: "get_config s = (r, s') \<Longrightarrow> keeps_open_stream s s'"
  unfolding get_config_def get_equalizer_def get_gain_def
  apply (erule andthen_keeps, erule get_channel_keeps)
  apply (erule andthen_keeps, erule assign_keeps)
  apply (erule andthen_keeps)
   apply (simp split: if_splits)
    apply (erule andthen_keeps, erule query_keeps)
    apply (erule andthen_keeps, erule assign_keeps)
    apply (erule andthen_keeps, erule query_keeps)
    apply (erule assign_keeps)
   apply (auto simp: keeps_open_stream_def)[1]
  apply (erule andthen_keeps, erule get_srate_keeps)
  apply (erule andthen_keeps, erule assign_keeps)
  apply (erule andthen_keeps, erule query_keeps)
  apply (erule andthen_keeps, erule query_keeps)
  apply (auto simp: keeps_open_stream_def Let_def)
  done

lemma receivePacket_keeps: "receivePacket s = (r, s') \<Longrightarrow> keeps_open_stream s s'"
  by (auto simp: receivePacket_def keeps_open_stream_def Let_def
      split: option.splits sock.splits list.splits if_splits)


lemma wav_update_keeps: "keeps_open_stream s (wav_update fn f s)"
  by (simp add: keeps_open_stream_def wav_update_def split: option.splits)

lemma log_event_keeps: "keeps_open_stream s (snd (log_event e s))"
  by (simp add: keeps_open_stream_def log_event_def)

lemma write_wav_loop_keeps:
  "write_wav_loop fn n c s = (r, s') \<Longrightarrow> keeps_open_stream s s'"
proof (induction fn n c s arbitrary: r s' rule: write_wav_loop.induct)
  case (1 filename npackets totalPacketsCount s)
  show ?case
  proof (cases "totalPacketsCount < npackets")
    case False
    with "1.prems" show ?thesis
      by (subst (asm) write_wav_loop.simps) (simp add: keeps_refl)
  next
    case True
    obtain r1 s1 where rp: "receivePacket s = (r1, s1)"
      by fastforce
    have k1: "keeps_open_stream s s1"
      using rp by (rule receivePacket_keeps)
    show ?thesis
    proof (cases r1)
      case (Returns newPacket)
      let ?s2 = "wav_update filename (\<lambda>obj. obj\<lparr>frames := frames obj @ [newPacket]\<rparr>) s1"
      let ?s3 = "if newSeqNum ?s2 - oldSeqNum ?s2 > 1
                 then snd (log_event (LostMsg (newSeqNum ?s2 - oldSeqNum ?s2)) ?s2) else ?s2"
      have step: "write_wav_loop filename npackets totalPacketsCount s =
                  write_wav_loop filename npackets (totalPacketsCount + 1) ?s3"
        using True rp Returns by (subst write_wav_loop.simps) (simp add: Let_def)
      have k3: "keeps_open_stream s1 ?s3"
        by (auto intro: keeps_trans wav_update_keeps log_event_keeps)
      have "keeps_open_stream ?s3 s'"
        using "1.IH" [OF True rp [unfolded Returns, symmetric] refl refl refl refl]
          "1.prems" [unfolded step] by blast
      with k1 k3 show ?thesis
        by (blast intro: keeps_trans)
    next
      case (Raises e)
      with True rp "1.prems" k1 show ?thesis
        by (subst (asm) write_wav_loop.simps) simp
    next
      case Blocks
      with True rp "1.prems" k1 show ?thesis
        by (subst (asm) write_wav_loop.simps) simp
    qed
  qed
qed


lemma andthen_leaves:
  assumes "andthen m f s = (r, s')"
    and "\<And>r1 s1. m s = (r1, s1) \<Longrightarrow> keeps_open_stream s s1"
    and "\<And>x s1. f x s1 = (r, s') \<Longrightarrow> leaves_stream close r s1 s'"
  shows "leaves_stream close r s s'"
  using assms(1)
proof (cases rule: andthenE)
  case (returns x s1)
  from assms(2) [OF returns(1)] assms(3) [OF returns(2)] show ?thesis
    by (auto simp: keeps_open_stream_def leaves_stream_def)
next
  case (raises e)
  from assms(2) [OF raises(1)] raises(2) show ?thesis
    by (auto simp: keeps_open_stream_def leaves_stream_def)
next
  case blocks
  from assms(2) [OF blocks(1)] blocks(2) show ?thesis
    by (auto simp: keeps_open_stream_def leaves_stream_def)
qed

lemma write_wav_leaves:
  "write_wav seconds prefix close s = (r, s') \<Longrightarrow> leaves_stream close r s s'"
  unfolding write_wav_def
  apply (erule andthen_leaves)
   apply (simp split: if_splits)
    apply (erule andthen_keeps, erule get_config_keeps, erule assign_keeps)
   apply (simp add: keeps_refl)
  apply (erule andthen_leaves)
   apply (auto simp: keeps_open_stream_def split: if_splits)[1]
  apply (erule andthen_leaves)
   apply (auto simp: keeps_open_stream_def split: if_splits)[1]
  apply (erule andthen_leaves)
   apply (auto simp: keeps_open_stream_def)[1]
  apply (erule andthen_leaves)
   apply (auto simp: keeps_open_stream_def Let_def wav_update_def wav_open_def
      split: if_splits)[1]
  apply (erule andthen_leaves, erule write_wav_loop_keeps)
  apply (erule andthen_leaves)
   apply (auto simp: wav_update_keeps)[1]
  apply (auto simp: andthen_def ret_def leaves_stream_def close_stream_def log_event_def
      split: if_splits option.splits)
  done

text \<open>One second from the client that opened the stream on port 4003: the call
  returns.\<close>

lemma recording_client_returns:
  "\<exists>s'. write_wav 1 ''x'' close (recording_client (stream_of 195)) = (Returns 1, s')"
proof -
  let ?c = "recording_client (stream_of 195)"
  have h1: "config_info ?c \<noteq> [] \<and> ?c = ?c \<or>
            config_info ?c = [] \<and> (\<exists>c. get_config ?c = (Returns c, ?c))"
    by (simp add: recording_client_def open_stream_def Let_def capture_client_def)
  have h2: "if open_stream_port ?c then \<exists>p. stream_socket ?c = Some (Bound p)
         else 0 \<le> streaming_port ?c \<and> streaming_port ?c \<le> 65535 \<and>
              streaming_port ?c \<notin> set (filter (\<lambda>p. p \<notin> set (held_port (stream_socket ?c)))
                                        (ports_in_use (world ?c)))"
    by (simp add: recording_client_def open_stream_def Let_def capture_client_def
        udp_client_def NeXOS_init_def lab_world_def held_port_def)
  have h3: "0 \<le> packetSize ?c"
    by (simp add: recording_client_def open_stream_def Let_def capture_client_def
        udp_client_def NeXOS_init_def lab_world_def held_port_def)
  have h4: "samplesPerPacket ?c = 512"
    by (simp add: recording_client_def open_stream_def Let_def capture_client_def
        udp_client_def NeXOS_init_def lab_world_def held_port_def)
  have h5: "srate ?c = 100000"
    by (simp add: recording_client_def open_stream_def Let_def capture_client_def
        udp_client_def NeXOS_init_def lab_world_def held_port_def)
  have h5': "0 < srate ?c"
    by (simp add: h5)
  have h6: "(0::int) \<le> 1"
    by simp
  have h7: "1 * srate ?c < 2 ^ 53"
    by (simp add: h5)
  have h8: "stream_rx (world ?c) = stream_of 195 @ []"
    by (simp add: recording_client_def open_stream_def Let_def capture_client_def
        udp_client_def NeXOS_init_def lab_world_def held_port_def)
  have l: "length (stream_of 195) = 195"
    by (simp add: stream_of_def)
  have h9: "int (length (stream_of 195)) = 1 * srate ?c div 512"
    by (simp add: l h5)
  have h10: "\<forall>d\<in>set (stream_of 195). 2 \<le> length (take (nat (packetSize ?c)) d)"
    by (simp add: stream_of_def packet_def recording_client_def open_stream_def Let_def
        capture_client_def udp_client_def NeXOS_init_def lab_world_def held_port_def)
  from write_wav_count [OF h1 h2 h3 h4 h5' h6 h7 h8 h9 h10, of "''x''" close]
  show ?thesis by blast
qed

text \<open>
  C6, as the code has it. \<^verbatim>\<open>open_stream\<close> does not look at the stream socket it
  replaces: whenever the port is in range and no other socket holds it, the call returns
  with a socket bound to the port and the flag \<open>open_stream_port\<close> set, also when the
  stream was open before. The test is in \<^verbatim>\<open>write_wav\<close>: called with the flag set, it
  does not open the stream again. Whatever its outcome, the stream socket is the one it
  found and the flag is still set; the one exception is a capture told to close that ran
  to its last line and returned, which leaves the socket closed and the flag cleared.
\<close>

theorem open_stream_has_no_guard:
  "(0 \<le> port \<and> port \<le> 65535 \<and>
    port \<notin> set (filter (\<lambda>p. p \<notin> set (held_port (stream_socket s))) (ports_in_use (world s)))
    \<longrightarrow>
      fst (open_stream port s) = Returns () \<and>
      stream_socket (snd (open_stream port s)) = Some (Bound port) \<and>
      open_stream_port (snd (open_stream port s))) \<and>
   (open_stream_port t \<and> write_wav seconds prefix close t = (r, t') \<longrightarrow>
      (if close \<and> r = Returns 1
       then stream_socket t' = Some Closed \<and> \<not> open_stream_port t'
       else stream_socket t' = stream_socket t \<and> open_stream_port t'))"
proof (rule conjI)
  show "0 \<le> port \<and> port \<le> 65535 \<and>
    port \<notin> set (filter (\<lambda>p. p \<notin> set (held_port (stream_socket s))) (ports_in_use (world s)))
    \<longrightarrow>
      fst (open_stream port s) = Returns () \<and>
      stream_socket (snd (open_stream port s)) = Some (Bound port) \<and>
      open_stream_port (snd (open_stream port s))"
    by (simp add: open_stream_def Let_def)
next
  show "open_stream_port t \<and> write_wav seconds prefix close t = (r, t') \<longrightarrow>
      (if close \<and> r = Returns 1
       then stream_socket t' = Some Closed \<and> \<not> open_stream_port t'
       else stream_socket t' = stream_socket t \<and> open_stream_port t')"
  proof
    assume a: "open_stream_port t \<and> write_wav seconds prefix close t = (r, t')"
    then have "leaves_stream close r t t'"
      by (blast intro: write_wav_leaves)
    with a show "if close \<and> r = Returns 1
       then stream_socket t' = Some Closed \<and> \<not> open_stream_port t'
       else stream_socket t' = stream_socket t \<and> open_stream_port t'"
      by (simp add: leaves_stream_def)
  qed
qed

theorem open_stream_has_no_guard_witness:
  "open_stream_port (listening_client [] []) \<and>
   stream_socket (listening_client [] []) = Some (Bound 4002) \<and>
   fst (open_stream 4002 (listening_client [] [])) = Returns () \<and>
   stream_socket (snd (open_stream 4002 (listening_client [] []))) = Some (Bound 4002) \<and>
   open_stream_port (snd (open_stream 4002 (listening_client [] []))) \<and>
   open_stream_port (recording_client (stream_of 195)) \<and>
   stream_socket (recording_client (stream_of 195)) = Some (Bound 4003) \<and>
   streaming_port (recording_client (stream_of 195)) = 4002 \<and>
   fst (write_wav 1 ''x'' False (recording_client (stream_of 195))) = Returns 1 \<and>
   stream_socket (snd (write_wav 1 ''x'' False (recording_client (stream_of 195)))) =
     Some (Bound 4003) \<and>
   open_stream_port (snd (write_wav 1 ''x'' False (recording_client (stream_of 195)))) \<and>
   fst (write_wav 1 ''x'' True (recording_client (stream_of 195))) = Returns 1 \<and>
   stream_socket (snd (write_wav 1 ''x'' True (recording_client (stream_of 195)))) =
     Some Closed \<and>
   \<not> open_stream_port (snd (write_wav 1 ''x'' True (recording_client (stream_of 195))))"
proof -
  let ?s = "listening_client [] []"
  let ?t = "recording_client (stream_of 195)"
  have o: "open_stream_port ?s"
    by code_simp
  have k: "stream_socket ?s = Some (Bound 4002)"
    by code_simp
  have h: "(0::int) \<le> 4002 \<and> (4002::int) \<le> 65535 \<and>
    4002 \<notin> set (filter (\<lambda>p. p \<notin> set (held_port (stream_socket ?s))) (ports_in_use (world ?s)))"
    by code_simp
  note r1 = open_stream_has_no_guard [of 4002 ?s, THEN conjunct1, THEN mp, OF h]
  have ot: "open_stream_port ?t"
    by (simp add: recording_client_def open_stream_def Let_def capture_client_def
        udp_client_def NeXOS_init_def lab_world_def held_port_def)
  have kt: "stream_socket ?t = Some (Bound 4003)"
    by (simp add: recording_client_def open_stream_def Let_def capture_client_def
        udp_client_def NeXOS_init_def lab_world_def held_port_def)
  have pt: "streaming_port ?t = 4002"
    by (simp add: recording_client_def open_stream_def Let_def capture_client_def
        udp_client_def NeXOS_init_def lab_world_def held_port_def)
  from recording_client_returns [of False] obtain u where
    wf: "write_wav 1 ''x'' False ?t = (Returns 1, u)" by blast
  from recording_client_returns [of True] obtain v where
    wt: "write_wav 1 ''x'' True ?t = (Returns 1, v)" by blast
  from open_stream_has_no_guard [of _ _ ?t 1 "''x''" False "Returns 1" u,
      THEN conjunct2, THEN mp, OF conjI [OF ot wf]]
  have f2: "stream_socket u = Some (Bound 4003) \<and> open_stream_port u"
    by (simp add: kt)
  from open_stream_has_no_guard [of _ _ ?t 1 "''x''" True "Returns 1" v,
      THEN conjunct2, THEN mp, OF conjI [OF ot wt]]
  have t2: "stream_socket v = Some Closed \<and> \<not> open_stream_port v"
    by simp
  have F: "fst (write_wav 1 ''x'' False ?t) = Returns 1 \<and>
     stream_socket (snd (write_wav 1 ''x'' False ?t)) = Some (Bound 4003) \<and>
     open_stream_port (snd (write_wav 1 ''x'' False ?t))"
    using f2 by (simp add: wf)
  have T: "fst (write_wav 1 ''x'' True ?t) = Returns 1 \<and>
     stream_socket (snd (write_wav 1 ''x'' True ?t)) = Some Closed \<and>
     \<not> open_stream_port (snd (write_wav 1 ''x'' True ?t))"
    using t2 by (simp add: wt)
  show ?thesis
    apply (rule conjI [OF o conjI [OF k conjI [OF r1 [THEN conjunct1]
          conjI [OF r1 [THEN conjunct2, THEN conjunct1]
            conjI [OF r1 [THEN conjunct2, THEN conjunct2]
              conjI [OF ot conjI [OF kt conjI [OF pt _]]]]]]]])
    using F T by blast
qed

text \<open>Opening the stream a second time, on the same port or on another, returns.\<close>

theorem second_open_stream_succeeds:
  "open_stream_port (listening_client [] []) \<and>
   stream_socket (listening_client [] []) = Some (Bound 4002) \<and>
   fst (open_stream 4002 (listening_client [] [])) = Returns () \<and>
   fst (open_stream 4003 (listening_client [] [])) = Returns ()"
  by code_simp

end
